theory Spec2Isabelle
  imports Main "HOL-Library.Sublist"
begin

section \<open>The settings translator \<^verbatim>\<open>cmake/settings/ini-to-stdio.py\<close>\<close>

text \<open>
  The script loads an F Prime \<^verbatim>\<open>settings.ini\<close> twice (ordinary build and unit-test
  build), checks that the settings CMake needs agree in both, and prints them on standard
  output as \<^verbatim>\<open>NAME=VALUE;\<close> records.

  Python strings are modelled as \<^typ>\<open>string\<close>, one \<^typ>\<open>char\<close> per code point (code
  points below 256). The settings loader \<^verbatim>\<open>IniSettings.load\<close>, the path resolution
  \<^verbatim>\<open>Path.resolve\<close> and Python's \<^verbatim>\<open>str\<close> of a list are not part of the script; they
  are inputs of the model.
\<close>

subsection \<open>Python string operations used by the script\<close>

definition backslash :: char where
  "backslash = CHR 0x5C"

definition newline :: char where
  "newline = CHR 0x0A"

definition quote :: char where
  "quote = CHR 0x27"

text \<open>
  \<^verbatim>\<open>s.replace(old, new)\<close> with a non-empty \<^verbatim>\<open>old\<close>: the occurrences are found from
  the left and do not overlap.
\<close>

fun replace_scan :: "string \<Rightarrow> string \<Rightarrow> string \<Rightarrow> string" where
  "replace_scan old new [] = []"
| "replace_scan old new (c # cs) =
     (if prefix old (c # cs)
      then new @ replace_scan old new (drop (length old - 1) cs)
      else c # replace_scan old new cs)"

text \<open>
  \<^verbatim>\<open>s.replace(old, new)\<close>. An empty \<^verbatim>\<open>old\<close> matches before every character and at
  the end: \<^verbatim>\<open>"ab".replace("", "-") == "-a-b-"\<close>.
\<close>

definition str_replace :: "string \<Rightarrow> string \<Rightarrow> string \<Rightarrow> string" where
  "str_replace old new s =
     (if old = [] then new @ concat (map (\<lambda>c. c # new) s) else replace_scan old new s)"

text \<open>\<^verbatim>\<open>os.path.commonprefix([a, b])\<close>: the longest common prefix, character by character.\<close>

fun commonprefix :: "string \<Rightarrow> string \<Rightarrow> string" where
  "commonprefix [] ys = []"
| "commonprefix (x # xs) [] = []"
| "commonprefix (x # xs) (y # ys) = (if x = y then x # commonprefix xs ys else [])"

text \<open>
  The slice \<^verbatim>\<open>s[: -1 * n]\<close> for \<^verbatim>\<open>n >= 0\<close>. For \<^verbatim>\<open>n == 0\<close> the bound is \<^verbatim>\<open>0\<close>, not
  the end of the string, so the slice is empty.
\<close>

definition slice_to_neg :: "string \<Rightarrow> nat \<Rightarrow> string" where
  "slice_to_neg s n = (if n = 0 then [] else take (length s - n) s)"

text \<open>\<^verbatim>\<open>str.isspace\<close> on one character (code points below 256).\<close>

definition isspace :: "char \<Rightarrow> bool" where
  "isspace c = ((of_char c :: nat) \<in> {9, 10, 11, 12, 13, 28, 29, 30, 31, 32, 133, 160})"

text \<open>\<^verbatim>\<open>s.strip()\<close>\<close>

definition strip :: "string \<Rightarrow> string" where
  "strip s = rev (dropWhile isspace (rev (dropWhile isspace s)))"

text \<open>\<^verbatim>\<open>s.split(sep)\<close> for a one-character separator: never an empty list.\<close>

fun split_on :: "char \<Rightarrow> string \<Rightarrow> string list" where
  "split_on sep [] = [[]]"
| "split_on sep (c # cs) =
     (if c = sep then [] # split_on sep cs
      else (case split_on sep cs of
              [] \<Rightarrow> [[c]]
            | w # ws \<Rightarrow> (c # w) # ws))"

text \<open>\<^verbatim>\<open>s.split(sep, 1)\<close> for a one-character separator: one or two pieces.\<close>

definition split_once :: "char \<Rightarrow> string \<Rightarrow> string list" where
  "split_once sep s =
     (if sep \<in> set s
      then [takeWhile (\<lambda>c. c \<noteq> sep) s, tl (dropWhile (\<lambda>c. c \<noteq> sep) s)]
      else [s])"

text \<open>\<^verbatim>\<open>sep.join(items)\<close>\<close>

fun join :: "string \<Rightarrow> string list \<Rightarrow> string" where
  "join sep [] = []"
| "join sep [x] = x"
| "join sep (x # y # ys) = x @ sep @ join sep (y # ys)"

subsection \<open>Values, exceptions and the two output streams\<close>

text \<open>
  A resolved setting is a string, a path or a list of paths. A path is kept as its
  \<^verbatim>\<open>str\<close>; two paths are equal exactly when their strings are, and a path never equals
  a string. The items of a list are kept as their \<^verbatim>\<open>str\<close> as well.
\<close>

datatype pyval = Str string | Path string | Seq "string list"

datatype exn =
    AssertionError string
  | KeyError string
  | TypeError string
  | AttributeError string
  | ResolverError string

text \<open>
  \<^verbatim>\<open>str(exc)\<close>. A \<^verbatim>\<open>KeyError\<close> prints the \<^verbatim>\<open>repr\<close> of its key; the keys looked up
  here are the fixed setting names, whose \<^verbatim>\<open>repr\<close> is the name in single quotes.
\<close>

fun exn_str :: "exn \<Rightarrow> string" where
  "exn_str (AssertionError m) = m"
| "exn_str (KeyError k) = quote # k @ [quote]"
| "exn_str (TypeError m) = m"
| "exn_str (AttributeError m) = m"
| "exn_str (ResolverError m) = m"

record io =
  stdout :: string
  stderr :: string

definition print_out :: "string \<Rightarrow> string \<Rightarrow> io \<Rightarrow> io" where
  "print_out text ending s = s\<lparr>stdout := stdout s @ text @ ending\<rparr>"

definition print_err :: "string \<Rightarrow> string \<Rightarrow> io \<Rightarrow> io" where
  "print_err text ending s = s\<lparr>stderr := stderr s @ text @ ending\<rparr>"

text \<open>
  \<^verbatim>\<open>str(value)\<close>. The \<^verbatim>\<open>str\<close> of a list is Python's \<^verbatim>\<open>repr\<close> of it, which is left
  as the parameter \<open>list_str\<close>.
\<close>

fun py_str :: "(string list \<Rightarrow> string) \<Rightarrow> pyval \<Rightarrow> string" where
  "py_str list_str (Str s) = s"
| "py_str list_str (Path p) = p"
| "py_str list_str (Seq xs) = list_str xs"

text \<open>
  \<^verbatim>\<open>str(item) for item in value\<close>: a string iterates over its characters, a list over
  its items, and a path is not iterable.
\<close>

fun iter_strs :: "pyval \<Rightarrow> exn + string list" where
  "iter_strs (Str s) = Inr (map (\<lambda>c. [c]) s)"
| "iter_strs (Path p) = Inl (TypeError (quote # ''PosixPath'' @ quote # '' object is not iterable''))"
| "iter_strs (Seq xs) = Inr xs"

definition no_attribute :: "string \<Rightarrow> string \<Rightarrow> string" where
  "no_attribute cls attr =
     quote # cls @ quote # '' object has no attribute '' @ quote # attr @ [quote]"

text \<open>\<^verbatim>\<open>value.split("\n")\<close>: only a string has the method.\<close>

fun split_lines :: "pyval \<Rightarrow> exn + string list" where
  "split_lines (Str s) = Inr (split_on newline s)"
| "split_lines (Path p) = Inl (AttributeError (no_attribute ''PosixPath'' ''split''))"
| "split_lines (Seq xs) = Inl (AttributeError (no_attribute ''list'' ''split''))"

text \<open>\<^verbatim>\<open>mapping[key]\<close>\<close>

definition getitem :: "(string \<rightharpoonup> pyval) \<Rightarrow> string \<Rightarrow> exn + pyval" where
  "getitem m k = (case m k of None \<Rightarrow> Inl (KeyError k) | Some v \<Rightarrow> Inr v)"

subsection \<open>\<^verbatim>\<open>print_setting\<close> and \<^verbatim>\<open>print_list_settings\<close>\<close>

text \<open>
  The global dictionary \<^verbatim>\<open>REMAPPING\<close> is passed as an association list, in insertion
  order.
\<close>

type_synonym remapping = "(string \<times> string) list"

definition escape :: "string \<Rightarrow> string" where
  "escape value = str_replace '';'' [backslash, CHR '';''] value"

definition remap :: "remapping \<Rightarrow> string \<Rightarrow> string" where
  "remap REMAPPING value = foldl (\<lambda>v (initial, final). str_replace initial final v) value REMAPPING"

definition print_setting ::
  "(string list \<Rightarrow> string) \<Rightarrow> remapping \<Rightarrow> string \<Rightarrow> pyval \<Rightarrow> string \<Rightarrow> io \<Rightarrow> io" where
  "print_setting list_str REMAPPING setting value ending s =
     (let value = escape (py_str list_str value);
          value = remap REMAPPING value
      in print_out (setting @ ''='' @ value) ending s)"

fun print_list_settings ::
  "(string list \<Rightarrow> string) \<Rightarrow> remapping \<Rightarrow> string list \<Rightarrow> io \<Rightarrow> io" where
  "print_list_settings list_str REMAPPING [] s = s"
| "print_list_settings list_str REMAPPING (item # items) s =
     (let splits = split_once (CHR ''='') (strip item);
          s' = (if hd splits \<noteq> []
                then (case splits of
                        [setting] \<Rightarrow> print_setting list_str REMAPPING setting (Str []) '';'' s
                      | setting # value # _ \<Rightarrow>
                          print_setting list_str REMAPPING setting (Str value) '';'' s
                      | [] \<Rightarrow> s)
                else s)
      in print_list_settings list_str REMAPPING items s')"

subsection \<open>The table \<^verbatim>\<open>CMAKE_NEEDED_SETTINGS\<close>\<close>

type_synonym handler =
  "(string list \<Rightarrow> string) \<Rightarrow> remapping \<Rightarrow> pyval \<Rightarrow> io \<Rightarrow> (exn + unit) \<times> io"

definition scalar_handler :: "string \<Rightarrow> handler" where
  "scalar_handler name list_str REMAPPING value s =
     (Inr (), print_setting list_str REMAPPING name value '';'' s)"

definition library_locations_handler :: handler where
  "library_locations_handler list_str REMAPPING value s =
     (case iter_strs value of
        Inl e \<Rightarrow> (Inl e, s)
      | Inr items \<Rightarrow>
          (Inr (),
           print_setting list_str REMAPPING ''FPRIME_LIBRARY_LOCATIONS''
             (Str (join '';'' items)) '';'' s))"

definition default_cmake_options_handler :: handler where
  "default_cmake_options_handler list_str REMAPPING value s =
     (case split_lines value of
        Inl e \<Rightarrow> (Inl e, s)
      | Inr items \<Rightarrow> (Inr (), print_list_settings list_str REMAPPING items s))"

definition CMAKE_NEEDED_SETTINGS :: "(string \<times> handler) list" where
  "CMAKE_NEEDED_SETTINGS =
     [(''framework_path'', scalar_handler ''FPRIME_FRAMEWORK_PATH''),
      (''project_root'', scalar_handler ''FPRIME_PROJECT_ROOT''),
      (''library_locations'', library_locations_handler),
      (''default_cmake_options'', default_cmake_options_handler),
      (''install_destination'', scalar_handler ''CMAKE_INSTALL_PREFIX'')]"

subsection \<open>\<^verbatim>\<open>main\<close> and the script body\<close>

text \<open>
  What one run receives from outside: \<open>settings\<close> is \<^verbatim>\<open>str(args_ns.settings)\<close>, the
  string of the path that \<^verbatim>\<open>argparse\<close> builds from the command-line text (\<open>parse_args\<close>
  below), \<open>resolved\<close> is \<^verbatim>\<open>str(args_ns.settings.resolve())\<close>, and
  \<open>load ut\<close> is the result of \<^verbatim>\<open>IniSettings.load(args_ns.settings, str(args_ns.toolchain.stem), ut)\<close>,
  a mapping or the exception it raises. The \<^verbatim>\<open>assert\<close> of the loop is taken as enabled.
\<close>

record invocation =
  settings :: string
  resolved :: string
  load :: "bool \<Rightarrow> exn + (string \<rightharpoonup> pyval)"
  list_str :: "string list \<Rightarrow> string"

text \<open>
  \<^verbatim>\<open>str(Path(text))\<close> for a POSIX path, the conversion of line 58 followed by the
  \<^verbatim>\<open>str\<close> of lines 73 and 97. The root is \<^verbatim>\<open>/\<close>, or \<^verbatim>\<open>//\<close> for exactly two leading
  slashes; empty components and \<^verbatim>\<open>.\<close> components are dropped, \<^verbatim>\<open>..\<close> is kept, and the
  empty path is \<^verbatim>\<open>.\<close>.
\<close>

definition path_root :: "string \<Rightarrow> string" where
  "path_root p =
     (if take 1 p \<noteq> ''/'' then []
      else if take 1 (drop 1 p) \<noteq> ''/'' \<or> take 1 (drop 2 p) = ''/'' then ''/''
      else ''//'')"

definition path_str :: "string \<Rightarrow> string" where
  "path_str p =
     (let root = path_root p;
          rel = drop (length root) p;
          parsed = filter (\<lambda>x. x \<noteq> [] \<and> x \<noteq> ''.'') (split_on (CHR ''/'') rel);
          s = root @ join ''/'' parsed
      in if s = [] then ''.'' else s)"

text \<open>
  The command-line texts that this conversion leaves as they are: \<^verbatim>\<open>.\<close>, a bare root, or
  a text whose components after the root are neither empty nor \<^verbatim>\<open>.\<close> (so no doubled and
  no trailing slash).
\<close>

definition normal_path :: "string \<Rightarrow> bool" where
  "normal_path p =
     (p = ''.'' \<or>
      (let rel = drop (length (path_root p)) p
       in if rel = [] then path_root p \<noteq> []
          else list_all (\<lambda>x. x \<noteq> [] \<and> x \<noteq> ''.'') (split_on (CHR ''/'') rel)))"

text \<open>
  The arguments of a run whose settings argument is the command-line text \<open>given\<close>.
\<close>

definition parse_args ::
  "string \<Rightarrow> string \<Rightarrow> (bool \<Rightarrow> exn + (string \<rightharpoonup> pyval)) \<Rightarrow> (string list \<Rightarrow> string) \<Rightarrow> invocation" where
  "parse_args given real ld ls =
     \<lparr>settings = path_str given, resolved = real, load = ld, list_str = ls\<rparr>"

text \<open>The local \<^verbatim>\<open>common_suffix\<close> of \<^verbatim>\<open>main\<close>.\<close>

definition common_suffix :: "string \<Rightarrow> string \<Rightarrow> string" where
  "common_suffix ini_path ini_real_path = rev (commonprefix (rev ini_path) (rev ini_real_path))"

text \<open>The one entry that \<^verbatim>\<open>main\<close> stores in the empty \<^verbatim>\<open>REMAPPING\<close>.\<close>

definition derive_remapping :: "string \<Rightarrow> string \<Rightarrow> remapping" where
  "derive_remapping ini_path ini_real_path =
     [(slice_to_neg ini_real_path (length (common_suffix ini_path ini_real_path)),
       slice_to_neg ini_path (length (common_suffix ini_path ini_real_path)))]"

definition warning :: "exn \<Rightarrow> string" where
  "warning key_error =
     ''[WARNING] Failed to load settings.ini field '' @ exn_str key_error @ ''. Update fprime-util.''"

definition assert_message :: string where
  "assert_message = ''CMake can only parse unittest independent settings''"

text \<open>The body of the \<^verbatim>\<open>try\<close> inside the loop.\<close>

definition try_setting ::
  "(string list \<Rightarrow> string) \<Rightarrow> remapping \<Rightarrow> (string \<rightharpoonup> pyval) \<Rightarrow> (string \<rightharpoonup> pyval) \<Rightarrow>
   string \<Rightarrow> handler \<Rightarrow> io \<Rightarrow> (exn + unit) \<times> io" where
  "try_setting ls REMAPPING loaded_settings loaded_settings_ut setting handler s =
     (case getitem loaded_settings setting of
        Inl e \<Rightarrow> (Inl e, s)
      | Inr setting_value \<Rightarrow>
          (case getitem loaded_settings_ut setting of
             Inl e \<Rightarrow> (Inl e, s)
           | Inr ut_setting_value \<Rightarrow>
               if setting_value \<noteq> ut_setting_value
               then (Inl (AssertionError assert_message), s)
               else (case getitem loaded_settings setting of
                       Inl e \<Rightarrow> (Inl e, s)
                     | Inr output \<Rightarrow> handler ls REMAPPING output s)))"

text \<open>One iteration: the \<^verbatim>\<open>try\<close> with its \<^verbatim>\<open>except KeyError\<close>.\<close>

definition loop_body ::
  "(string list \<Rightarrow> string) \<Rightarrow> remapping \<Rightarrow> (string \<rightharpoonup> pyval) \<Rightarrow> (string \<rightharpoonup> pyval) \<Rightarrow>
   string \<Rightarrow> handler \<Rightarrow> io \<Rightarrow> (exn + unit) \<times> io" where
  "loop_body ls REMAPPING loaded_settings loaded_settings_ut setting handler s =
     (case try_setting ls REMAPPING loaded_settings loaded_settings_ut setting handler s of
        (Inl (KeyError k), s') \<Rightarrow> (Inr (), print_err (warning (KeyError k)) '';'' s')
      | r \<Rightarrow> r)"

fun settings_loop ::
  "(string list \<Rightarrow> string) \<Rightarrow> remapping \<Rightarrow> (string \<rightharpoonup> pyval) \<Rightarrow> (string \<rightharpoonup> pyval) \<Rightarrow>
   (string \<times> handler) list \<Rightarrow> io \<Rightarrow> (exn + unit) \<times> io" where
  "settings_loop ls REMAPPING loaded_settings loaded_settings_ut [] s = (Inr (), s)"
| "settings_loop ls REMAPPING loaded_settings loaded_settings_ut ((setting, handler) # rest) s =
     (case loop_body ls REMAPPING loaded_settings loaded_settings_ut setting handler s of
        (Inl e, s') \<Rightarrow> (Inl e, s')
      | (Inr _, s') \<Rightarrow> settings_loop ls REMAPPING loaded_settings loaded_settings_ut rest s')"

definition main :: "invocation \<Rightarrow> io \<Rightarrow> (exn + int) \<times> io" where
  "main args s =
     (case load args False of
        Inl e \<Rightarrow> (Inl e, s)
      | Inr loaded_settings \<Rightarrow>
          (case load args True of
             Inl e \<Rightarrow> (Inl e, s)
           | Inr loaded_settings_ut \<Rightarrow>
               (let ini_path = settings args;
                    ini_real_path = resolved args;
                    REMAPPING = derive_remapping ini_path ini_real_path
                in case settings_loop (list_str args) REMAPPING loaded_settings
                          loaded_settings_ut CMAKE_NEEDED_SETTINGS s of
                     (Inl e, s') \<Rightarrow> (Inl e, s')
                   | (Inr _, s') \<Rightarrow>
                       (Inr 0,
                        print_setting (list_str args) REMAPPING ''FPRIME_SETTINGS_FILE''
                          (Path (settings args)) [] s'))))"

text \<open>
  The \<^verbatim>\<open>__main__\<close> block: the exit status of \<^verbatim>\<open>main\<close>, or the exception's message on
  the diagnostic stream and exit status 1.
\<close>

definition script :: "invocation \<Rightarrow> io \<times> int" where
  "script args =
     (case main args \<lparr>stdout = [], stderr = []\<rparr> of
        (Inr status, s) \<Rightarrow> (s, status)
      | (Inl exc, s) \<Rightarrow> (print_err (exn_str exc) [newline] s, 1))"

subsection \<open>What a run is expected to print\<close>

text \<open>
  The definitions of this section are not part of the script: they name the text of a
  record and the output of a handler, so that the theorems below can state what is printed.
\<close>

text \<open>The text of one record: name, \<^verbatim>\<open>=\<close>, the value escaped and then remapped, ending.\<close>

definition record_of :: "remapping \<Rightarrow> string \<Rightarrow> string \<Rightarrow> string \<Rightarrow> string" where
  "record_of REMAPPING name v ending = name @ ''='' @ remap REMAPPING (escape v) @ ending"

text \<open>
  What one line of the default options prints: nothing when the stripped line has no key
  before its first \<^verbatim>\<open>=\<close>, otherwise one record under that key.
\<close>

definition option_record :: "remapping \<Rightarrow> string \<Rightarrow> string" where
  "option_record REMAPPING item =
     (let line = strip item;
          key = takeWhile (\<lambda>c. c \<noteq> CHR ''='') line
      in if key = [] then []
         else if CHR ''='' \<in> set line
         then record_of REMAPPING key (tl (dropWhile (\<lambda>c. c \<noteq> CHR ''='') line)) '';''
         else record_of REMAPPING key [] '';'')"

text \<open>
  What a handler prints for a value, and the handlers that only print: they raise nothing
  and append that text to standard output.
\<close>

definition handler_out :: "handler \<Rightarrow> (string list \<Rightarrow> string) \<Rightarrow> remapping \<Rightarrow> pyval \<Rightarrow> string" where
  "handler_out h ls REMAPPING v = stdout (snd (h ls REMAPPING v \<lparr>stdout = [], stderr = []\<rparr>))"

definition handler_ok :: "handler \<Rightarrow> (string list \<Rightarrow> string) \<Rightarrow> remapping \<Rightarrow> pyval \<Rightarrow> bool" where
  "handler_ok h ls REMAPPING v =
     (\<forall>s. h ls REMAPPING v s = (Inr (), s\<lparr>stdout := stdout s @ handler_out h ls REMAPPING v\<rparr>))"

text \<open>The value of a field that both mappings hold, as the loop reads it from the first.\<close>

definition present_value :: "(string \<rightharpoonup> pyval) \<Rightarrow> (string \<rightharpoonup> pyval) \<Rightarrow> string \<Rightarrow> pyval option" where
  "present_value a b k = (case b k of None \<Rightarrow> None | Some _ \<Rightarrow> a k)"

text \<open>What one iteration adds to each stream when it raises nothing.\<close>

definition loop_out ::
  "(string list \<Rightarrow> string) \<Rightarrow> remapping \<Rightarrow> (string \<rightharpoonup> pyval) \<Rightarrow> (string \<rightharpoonup> pyval) \<Rightarrow>
   string \<times> handler \<Rightarrow> string" where
  "loop_out ls REMAPPING a b f =
     (case present_value a b (fst f) of None \<Rightarrow> [] | Some v \<Rightarrow> handler_out (snd f) ls REMAPPING v)"

definition loop_err :: "(string \<rightharpoonup> pyval) \<Rightarrow> (string \<rightharpoonup> pyval) \<Rightarrow> string \<times> handler \<Rightarrow> string" where
  "loop_err a b f =
     (case present_value a b (fst f) of None \<Rightarrow> warning (KeyError (fst f)) @ '';'' | Some v \<Rightarrow> [])"

text \<open>An entry of the table whose iteration raises nothing.\<close>

definition field_ok ::
  "(string list \<Rightarrow> string) \<Rightarrow> remapping \<Rightarrow> (string \<rightharpoonup> pyval) \<Rightarrow> (string \<rightharpoonup> pyval) \<Rightarrow>
   string \<times> handler \<Rightarrow> bool" where
  "field_ok ls REMAPPING a b f =
     (case present_value a b (fst f) of
        None \<Rightarrow> True
      | Some v \<Rightarrow> b (fst f) = Some v \<and> handler_ok (snd f) ls REMAPPING v)"

text \<open>
  What the field \<open>k\<close> prints when it is present with the value \<open>v\<close>, by the
  entry of the table for \<open>k\<close>.
\<close>

definition field_records :: "(string list \<Rightarrow> string) \<Rightarrow> remapping \<Rightarrow> string \<Rightarrow> pyval \<Rightarrow> string" where
  "field_records ls REMAPPING k v =
     (if k = ''framework_path'' then record_of REMAPPING ''FPRIME_FRAMEWORK_PATH'' (py_str ls v) '';''
      else if k = ''project_root'' then record_of REMAPPING ''FPRIME_PROJECT_ROOT'' (py_str ls v) '';''
      else if k = ''library_locations''
      then (case iter_strs v of
              Inl e \<Rightarrow> []
            | Inr items \<Rightarrow> record_of REMAPPING ''FPRIME_LIBRARY_LOCATIONS'' (join '';'' items) '';'')
      else if k = ''default_cmake_options''
      then (case split_lines v of
              Inl e \<Rightarrow> []
            | Inr items \<Rightarrow> concat (map (option_record REMAPPING) items))
      else if k = ''install_destination''
      then record_of REMAPPING ''CMAKE_INSTALL_PREFIX'' (py_str ls v) '';''
      else [])"

text \<open>
  The values on which the handler of the field does not raise: the library locations
  are not a bare path, and the default options are a string.
\<close>

definition well_typed :: "string \<Rightarrow> pyval \<Rightarrow> bool" where
  "well_typed k v =
     (if k = ''library_locations'' then (case v of Path p \<Rightarrow> False | _ \<Rightarrow> True)
      else if k = ''default_cmake_options'' then (case v of Str t \<Rightarrow> True | _ \<Rightarrow> False)
      else True)"

text \<open>
  A field passes the loop without an exception: it is missing from one mapping, or both
  mappings hold the same value, of a type its handler accepts.
\<close>

definition agree_ok :: "(string \<rightharpoonup> pyval) \<Rightarrow> (string \<rightharpoonup> pyval) \<Rightarrow> string \<Rightarrow> bool" where
  "agree_ok a b k =
     (case present_value a b k of
        None \<Rightarrow> True
      | Some v \<Rightarrow> b k = Some v \<and> well_typed k v)"

text \<open>
  The text a field adds to standard output and to the diagnostic stream in a run that
  is not aborted.
\<close>

definition expected_stdout ::
  "(string list \<Rightarrow> string) \<Rightarrow> remapping \<Rightarrow> (string \<rightharpoonup> pyval) \<Rightarrow> (string \<rightharpoonup> pyval) \<Rightarrow> string \<Rightarrow> string" where
  "expected_stdout ls REMAPPING a b k =
     (case present_value a b k of None \<Rightarrow> [] | Some v \<Rightarrow> field_records ls REMAPPING k v)"

definition expected_stderr :: "(string \<rightharpoonup> pyval) \<Rightarrow> (string \<rightharpoonup> pyval) \<Rightarrow> string \<Rightarrow> string" where
  "expected_stderr a b k =
     (case present_value a b k of None \<Rightarrow> warning (KeyError k) @ '';'' | Some v \<Rightarrow> [])"

subsection \<open>The consumer of the records\<close>

text \<open>
  Modelled from the spec: the parser that reads the records is not among the sources. The
  spec describes it as unescaping-aware: it splits the output at every \<^verbatim>\<open>;\<close> that is not
  preceded by a backslash, and maps \<^verbatim>\<open>\;\<close> back to \<^verbatim>\<open>;\<close>.
\<close>

fun cons_first :: "char \<Rightarrow> string list \<Rightarrow> string list" where
  "cons_first c [] = [[c]]"
| "cons_first c (w # ws) = (c # w) # ws"

fun parse_records :: "string \<Rightarrow> string list" where
  "parse_records [] = [[]]"
| "parse_records [c] = (if c = CHR '';'' then [[], []] else [[c]])"
| "parse_records (c # d # cs) =
     (if c = backslash \<and> d = CHR '';'' then cons_first (CHR '';'') (parse_records cs)
      else if c = CHR '';'' then [] # parse_records (d # cs)
      else cons_first c (parse_records (d # cs)))"

text \<open>
  Modelled from the spec: mapping every \<^verbatim>\<open>\;\<close> of a value back to \<^verbatim>\<open>;\<close>.
\<close>

definition unescape :: "string \<Rightarrow> string" where
  "unescape s = str_replace [backslash, CHR '';''] '';'' s"

subsection \<open>Example runs\<close>

text \<open>
  A run in which the loader yields no setting at all, and a run in which it yields the
  given settings for the build and for the unit-test variant.
\<close>

definition args_no_fields :: "string \<Rightarrow> string \<Rightarrow> invocation" where
  "args_no_fields given real =
     \<lparr>settings = given, resolved = real, load = (\<lambda>ut. Inr Map.empty), list_str = (\<lambda>xs. [])\<rparr>"

definition args_with ::
  "string \<Rightarrow> string \<Rightarrow> (string \<times> pyval) list \<Rightarrow> (string \<times> pyval) list \<Rightarrow> invocation" where
  "args_with given real build ut =
     \<lparr>settings = given, resolved = real,
      load = (\<lambda>is_ut. Inr (map_of (if is_ut then ut else build))),
      list_str = (\<lambda>xs. [])\<rparr>"

definition all_warnings :: string where
  "all_warnings = concat (map (\<lambda>f. warning (KeyError (fst f)) @ '';'') CMAKE_NEEDED_SETTINGS)"

definition example_settings :: "(string \<times> pyval) list" where
  "example_settings =
     [(''framework_path'', Path ''/home/u/fprime''),
      (''library_locations'', Seq [''/home/u/proj/lib1'', ''/home/u/proj/lib2'']),
      (''default_cmake_options'', Str (''A=1'' @ [newline] @ ''B=2''))]"

definition build_settings :: "(string \<times> pyval) list" where
  "build_settings =
     [(''framework_path'', Path ''/home/u/fprime''), (''project_root'', Path ''/home/u/proj'')]"

definition ut_settings_other_root :: "(string \<times> pyval) list" where
  "ut_settings_other_root =
     [(''framework_path'', Path ''/home/u/fprime''), (''project_root'', Path ''/home/u/other'')]"

definition ut_settings_no_root :: "(string \<times> pyval) list" where
  "ut_settings_no_root = [(''framework_path'', Path ''/home/u/fprime'')]"

definition options_only :: "string \<Rightarrow> (string \<times> pyval) list" where
  "options_only text = [(''default_cmake_options'', Str text)]"

section \<open>Basic facts\<close>

lemma replace_scan_single:
  "replace_scan [x] new s = concat (map (\<lambda>c. if c = x then new else [c]) s)"
  by (induction s) auto

lemma escape_concat:
  "escape v = concat (map (\<lambda>c. if c = CHR '';'' then [backslash, CHR '';''] else [c]) v)"
  by (simp add: escape_def str_replace_def replace_scan_single)

lemma escape_Nil: "escape [] = []"
  by (simp add: escape_concat)

lemma escape_Cons:
  "escape (c # cs) = (if c = CHR '';'' then [backslash, CHR '';''] else [c]) @ escape cs"
  by (simp add: escape_concat)

lemma print_setting_eq:
  "print_setting ls rm name v e s =
     s\<lparr>stdout := stdout s @ record_of rm name (py_str ls v) e\<rparr>"
  by (simp add: print_setting_def print_out_def Let_def record_of_def)

lemma print_list_settings_eq:
  "print_list_settings ls rm items s =
     s\<lparr>stdout := stdout s @ concat (map (option_record rm) items)\<rparr>"
proof (induction items arbitrary: s)
  case Nil
  then show ?case by simp
next
  case (Cons item items)
  have step: "(let splits = split_once (CHR ''='') (strip item)
          in (if hd splits \<noteq> []
                then (case splits of
                        [setting] \<Rightarrow> print_setting ls rm setting (Str []) '';'' s
                      | setting # v # _ \<Rightarrow> print_setting ls rm setting (Str v) '';'' s
                      | [] \<Rightarrow> s)
                else s)) = s\<lparr>stdout := stdout s @ option_record rm item\<rparr>"
  proof (cases "CHR ''='' \<in> set (strip item)")
    case True
    then show ?thesis
      by (simp add: split_once_def option_record_def Let_def print_setting_eq)
  next
    case False
    then have tw: "takeWhile (\<lambda>c. c \<noteq> CHR ''='') (strip item) = strip item"
      by (auto simp: takeWhile_eq_all_conv)
    from False show ?thesis
      by (simp add: split_once_def option_record_def Let_def print_setting_eq tw)
  qed
  have "print_list_settings ls rm (item # items) s =
        print_list_settings ls rm items (s\<lparr>stdout := stdout s @ option_record rm item\<rparr>)"
    using step by (simp add: Let_def)
  then show ?case by (simp add: Cons.IH)
qed

lemma scalar_handler_eq:
  "scalar_handler name ls rm v s =
     (Inr (), s\<lparr>stdout := stdout s @ record_of rm name (py_str ls v) '';''\<rparr>)"
  by (simp add: scalar_handler_def print_setting_eq)

lemma library_locations_handler_eq:
  "iter_strs v = Inr items \<Longrightarrow>
   library_locations_handler ls rm v s =
     (Inr (), s\<lparr>stdout := stdout s @ record_of rm ''FPRIME_LIBRARY_LOCATIONS'' (join '';'' items) '';''\<rparr>)"
  by (simp add: library_locations_handler_def print_setting_eq)

lemma default_cmake_options_handler_eq:
  "default_cmake_options_handler ls rm (Str text) s =
     (Inr (), s\<lparr>stdout := stdout s @ concat (map (option_record rm) (split_on newline text))\<rparr>)"
  by (simp add: default_cmake_options_handler_def print_list_settings_eq)

lemma replace_scan_absent:
  "old \<noteq> [] \<Longrightarrow> \<not> sublist old s \<Longrightarrow> replace_scan old new s = s"
proof (induction s)
  case Nil
  then show ?case by simp
next
  case (Cons c cs)
  have "sublist old (c # cs) \<longleftrightarrow> prefix old (c # cs) \<or> sublist old cs"
    by (rule sublist_Cons_right)
  with Cons.prems(2) have np: "\<not> prefix old (c # cs)" and ns: "\<not> sublist old cs"
    by blast+
  from Cons.IH[OF Cons.prems(1) ns] np show ?case by simp
qed
lemma present_value_None: "present_value a b k = None \<longleftrightarrow> a k = None \<or> b k = None"
  by (simp add: present_value_def split: option.splits)

lemma present_value_Some: "present_value a b k = Some v \<longleftrightarrow> a k = Some v \<and> b k \<noteq> None"
  by (auto simp: present_value_def split: option.splits)

lemma loop_body_missing:
  "a k = None \<or> b k = None \<Longrightarrow>
   loop_body ls rm a b k h s = (Inr (), s\<lparr>stderr := stderr s @ warning (KeyError k) @ '';''\<rparr>)"
  by (auto simp: loop_body_def try_setting_def getitem_def print_err_def split: option.splits)

lemma loop_body_mismatch:
  "a k = Some v \<Longrightarrow> b k = Some w \<Longrightarrow> v \<noteq> w \<Longrightarrow>
   loop_body ls rm a b k h s = (Inl (AssertionError assert_message), s)"
  by (simp add: loop_body_def try_setting_def getitem_def)

lemma loop_body_ok:
  "a k = Some v \<Longrightarrow> b k = Some v \<Longrightarrow> handler_ok h ls rm v \<Longrightarrow>
   loop_body ls rm a b k h s = (Inr (), s\<lparr>stdout := stdout s @ handler_out h ls rm v\<rparr>)"
  by (simp add: loop_body_def try_setting_def getitem_def handler_ok_def)

lemma settings_loop_append:
  "settings_loop ls rm a b (xs @ ys) s =
     (case settings_loop ls rm a b xs s of
        (Inl e, s') \<Rightarrow> (Inl e, s')
      | (Inr u, s') \<Rightarrow> settings_loop ls rm a b ys s')"
proof (induction xs arbitrary: s)
  case Nil
  then show ?case by simp
next
  case (Cons x xs)
  obtain k h where x: "x = (k, h)" by (cases x)
  show ?case
    by (simp add: x Cons.IH split: prod.splits sum.splits)
qed

lemma loop_body_field_ok:
  assumes "field_ok ls rm a b (k, h)"
  shows "loop_body ls rm a b k h s =
     (Inr (), s\<lparr>stdout := stdout s @ loop_out ls rm a b (k, h),
                 stderr := stderr s @ loop_err a b (k, h)\<rparr>)"
proof (cases "present_value a b k")
  case None
  then have "a k = None \<or> b k = None" by (simp add: present_value_None)
  then have "loop_body ls rm a b k h s =
      (Inr (), s\<lparr>stderr := stderr s @ warning (KeyError k) @ '';''\<rparr>)"
    by (rule loop_body_missing)
  with None show ?thesis
    by (simp add: loop_out_def loop_err_def)
next
  case (Some v)
  then have av: "a k = Some v" by (simp add: present_value_Some)
  from assms Some have bv: "b k = Some v" and ok: "handler_ok h ls rm v"
    by (simp_all add: field_ok_def)
  from loop_body_ok[of a k v b h ls rm s, OF av bv ok] Some show ?thesis
    by (simp add: loop_out_def loop_err_def)
qed

lemma settings_loop_ok:
  "\<forall>f\<in>set fs. field_ok ls rm a b f \<Longrightarrow>
   settings_loop ls rm a b fs s =
     (Inr (), s\<lparr>stdout := stdout s @ concat (map (loop_out ls rm a b) fs),
                 stderr := stderr s @ concat (map (loop_err a b) fs)\<rparr>)"
proof (induction fs arbitrary: s)
  case Nil
  then show ?case by simp
next
  case (Cons f fs)
  obtain k h where f: "f = (k, h)" by (cases f)
  from Cons.prems have ok: "field_ok ls rm a b (k, h)" and rest: "\<forall>f\<in>set fs. field_ok ls rm a b f"
    by (simp_all add: f)
  show ?case
    by (simp add: f loop_body_field_ok[OF ok] Cons.IH[OF rest])
qed

lemma commonprefix_prefix: "prefix (commonprefix xs ys) xs \<and> prefix (commonprefix xs ys) ys"
  by (induction xs ys rule: commonprefix.induct) auto

lemma commonprefix_greatest: "prefix t xs \<Longrightarrow> prefix t ys \<Longrightarrow> prefix t (commonprefix xs ys)"
proof (induction xs ys arbitrary: t rule: commonprefix.induct)
  case (1 ys)
  then show ?case by simp
next
  case (2 x xs)
  then show ?case by simp
next
  case (3 x xs y ys)
  then show ?case by (cases t) auto
qed

lemma common_suffix_suffix: "suffix (common_suffix p r) p" "suffix (common_suffix p r) r"
  using commonprefix_prefix[of "rev p" "rev r"]
  by (simp_all add: common_suffix_def suffix_to_prefix)

lemma common_suffix_greatest: "suffix t p \<Longrightarrow> suffix t r \<Longrightarrow> suffix t (common_suffix p r)"
  using commonprefix_greatest[of "rev t" "rev p" "rev r"]
  by (simp add: common_suffix_def suffix_to_prefix)

lemma suffix_take: "suffix cs p \<Longrightarrow> take (length p - length cs) p @ cs = p"
  by (auto simp: suffix_def)

lemma str_replace_empty_empty: "str_replace [] [] x = x"
  by (simp add: str_replace_def)


lemma replace_scan_same_aux: "new = old \<Longrightarrow> old \<noteq> [] \<Longrightarrow> replace_scan old new s = s"
proof (induction old new s rule: replace_scan.induct)
  case (1 old new)
  then show ?case by simp
next
  case (2 old new c cs)
  show ?case
  proof (cases "prefix old (c # cs)")
    case True
    then obtain zs where zs: "c # cs = old @ zs" by (auto simp: prefix_def)
    show ?thesis
    proof (cases old)
      case Nil
      with 2(4) show ?thesis by simp
    next
      case (Cons o' os)
      with zs have cs: "cs = os @ zs" by simp
      have d: "drop (length old - 1) cs = zs" using Cons cs by simp
      have "replace_scan old new (c # cs) = new @ replace_scan old new (drop (length old - 1) cs)"
        using True by simp
      also have "\<dots> = old @ zs"
        using 2(1)[OF True 2(3) 2(4)] d by (simp add: 2(3))
      finally show ?thesis by (simp add: zs)
    qed
  next
    case False
    with 2(2)[OF False 2(3) 2(4)] show ?thesis by simp
  qed
qed

lemma replace_scan_same: "old \<noteq> [] \<Longrightarrow> replace_scan old old s = s"
  by (simp add: replace_scan_same_aux)

lemma str_replace_same: "str_replace old old s = s"
  by (simp add: str_replace_def replace_scan_same)

lemma str_replace_absent:
  "old \<noteq> [] \<Longrightarrow> \<not> sublist old s \<Longrightarrow> str_replace old new s = s"
  by (simp add: str_replace_def replace_scan_absent)

lemma str_replace_prefix:
  "old \<noteq> [] \<Longrightarrow> str_replace old new (old @ rest) = new @ str_replace old new rest"
  by (cases old) (simp_all add: str_replace_def)

lemma derive_example:
  "derive_remapping ''proj/settings.ini'' ''/home/u/proj/settings.ini'' = [(''/home/u/'', [])]"
  by (simp add: derive_remapping_def slice_to_neg_def common_suffix_def)

lemma escape_no_semicolon: "CHR '';'' \<notin> set v \<Longrightarrow> escape v = v"
  by (induction v) (auto simp: escape_Nil escape_Cons)

lemma remap_single: "remap [(k, v)] x = str_replace k v x"
  by (simp add: remap_def)

lemma takeWhile_until: "c \<notin> set key \<Longrightarrow> takeWhile (\<lambda>x. x \<noteq> c) (key @ c # v) = key"
  by (induction key) auto

lemma dropWhile_until: "c \<notin> set key \<Longrightarrow> dropWhile (\<lambda>x. x \<noteq> c) (key @ c # v) = c # v"
  by (induction key) auto

lemma settings_loop_no_fields:
  "settings_loop ls rm Map.empty Map.empty fs s =
     (Inr (), s\<lparr>stderr := stderr s @ concat (map (\<lambda>f. warning (KeyError (fst f)) @ '';'') fs)\<rparr>)"
proof -
  have ok: "\<forall>f\<in>set fs. field_ok ls rm Map.empty Map.empty f"
    by (simp add: field_ok_def present_value_def)
  have o: "loop_out ls rm Map.empty Map.empty = (\<lambda>f. [])"
    by (rule ext) (simp add: loop_out_def present_value_def)
  have e: "loop_err Map.empty Map.empty = (\<lambda>f. warning (KeyError (fst f)) @ '';'')"
    by (rule ext) (simp add: loop_err_def present_value_def)
  show ?thesis
    by (simp add: settings_loop_ok[OF ok] o e)
qed

lemma main_no_fields:
  "main (args_no_fields given real) \<lparr>stdout = [], stderr = []\<rparr> =
     (Inr 0, \<lparr>stdout = ''FPRIME_SETTINGS_FILE='' @ remap (derive_remapping given real) (escape given),
              stderr = all_warnings\<rparr>)"
  by (simp add: main_def args_no_fields_def settings_loop_no_fields print_setting_eq record_of_def
      all_warnings_def)

lemma backslash_neq [simp]: "backslash \<noteq> CHR '';''" "CHR '';'' \<noteq> backslash"
  by (simp_all add: backslash_def)

lemma parse_records_semicolon: "parse_records (CHR '';'' # xs) = [] # parse_records xs"
  by (cases xs) simp_all

lemma parse_records_plain:
  "xs \<noteq> [] \<Longrightarrow> c \<noteq> CHR '';'' \<Longrightarrow> (c = backslash \<longrightarrow> hd xs \<noteq> CHR '';'') \<Longrightarrow>
   parse_records (c # xs) = cons_first c (parse_records xs)"
  by (cases xs) auto

lemma hd_escape: "v \<noteq> [] \<Longrightarrow> hd (escape v @ xs) \<noteq> CHR '';''"
  by (cases v) (auto simp: escape_Cons)

lemma parse_records_value:
  "v = [] \<or> last v \<noteq> backslash \<Longrightarrow>
   parse_records (escape v @ CHR '';'' # rest) = v # parse_records rest"
proof (induction v)
  case Nil
  then show ?case by (simp add: escape_Nil parse_records_semicolon)
next
  case (Cons c v)
  from Cons.prems have tl_ok: "v = [] \<or> last v \<noteq> backslash"
    by (cases v) auto
  note ih = Cons.IH[OF tl_ok]
  show ?case
  proof (cases "c = CHR '';''")
    case True
    then show ?thesis by (simp add: escape_Cons ih)
  next
    case False
    have ne: "escape v @ CHR '';'' # rest \<noteq> []" by simp
    have "c = backslash \<longrightarrow> hd (escape v @ CHR '';'' # rest) \<noteq> CHR '';''"
    proof
      assume "c = backslash"
      with Cons.prems have "v \<noteq> []" by auto
      then show "hd (escape v @ CHR '';'' # rest) \<noteq> CHR '';''" by (rule hd_escape)
    qed
    from parse_records_plain[OF ne False this] False show ?thesis
      by (simp add: escape_Cons ih)
  qed
qed

lemma parse_records_name:
  "CHR '';'' \<notin> set name \<Longrightarrow> parse_records (CHR ''='' # ys) = w # ws \<Longrightarrow>
   parse_records (name @ CHR ''='' # ys) = (name @ w) # ws"
proof (induction name)
  case Nil
  then show ?case by simp
next
  case (Cons c name)
  from Cons.prems have c: "c \<noteq> CHR '';''" and n: "CHR '';'' \<notin> set name" by auto
  have ne: "name @ CHR ''='' # ys \<noteq> []" by simp
  have h: "hd (name @ CHR ''='' # ys) \<noteq> CHR '';''"
    using n by (cases name) auto
  from parse_records_plain[OF ne c] h Cons.IH[OF n Cons.prems(2)] show ?case by simp
qed

lemma parse_records_record:
  assumes "CHR '';'' \<notin> set name" and "v = [] \<or> last v \<noteq> backslash"
  shows "parse_records (name @ ''='' @ escape v @ '';'' @ rest) = (name @ ''='' @ v) # parse_records rest"
proof -
  have "parse_records (CHR ''='' # escape v @ CHR '';'' # rest) =
        cons_first (CHR ''='') (parse_records (escape v @ CHR '';'' # rest))"
    by (rule parse_records_plain) (simp_all add: backslash_def)
  then have "parse_records (CHR ''='' # escape v @ CHR '';'' # rest) = (CHR ''='' # v) # parse_records rest"
    by (simp add: parse_records_value[OF assms(2)])
  from parse_records_name[OF assms(1) this] show ?thesis by simp
qed

lemma unescape_escape: "unescape (escape v) = v"
proof (induction v)
  case Nil
  then show ?case by (simp add: unescape_def escape_Nil str_replace_def)
next
  case (Cons c v)
  have np: "\<not> prefix [backslash, CHR '';''] (c # escape v)" if "c \<noteq> CHR '';''"
  proof (cases v)
    case Nil
    then show ?thesis by (simp add: escape_Nil)
  next
    case (Cons d v')
    then show ?thesis by (auto simp: escape_Cons)
  qed
  from Cons.IH have ih: "replace_scan [backslash, CHR '';''] '';'' (escape v) = v"
    by (simp add: unescape_def str_replace_def)
  show ?case
  proof (cases "c = CHR '';''")
    case True
    then show ?thesis by (simp add: unescape_def str_replace_def escape_Cons ih)
  next
    case False
    from np[OF False] False show ?thesis
      by (simp add: unescape_def str_replace_def escape_Cons ih)
  qed
qed

lemma escape_inj: "escape v = escape w \<Longrightarrow> v = w"
  using unescape_escape by metis

lemma setting_names:
  "map fst CMAKE_NEEDED_SETTINGS =
     [''framework_path'', ''project_root'', ''library_locations'', ''default_cmake_options'',
      ''install_destination'']"
  by (simp add: CMAKE_NEEDED_SETTINGS_def)

lemma scalar_handler_ok:
  "handler_ok (scalar_handler name) ls rm v \<and>
   handler_out (scalar_handler name) ls rm v = record_of rm name (py_str ls v) '';''"
  by (simp add: handler_ok_def handler_out_def scalar_handler_eq)

lemma library_locations_handler_ok:
  "well_typed ''library_locations'' v \<Longrightarrow>
   handler_ok library_locations_handler ls rm v \<and>
   handler_out library_locations_handler ls rm v = field_records ls rm ''library_locations'' v"
  by (cases v)
     (simp_all add: well_typed_def handler_ok_def handler_out_def field_records_def
        library_locations_handler_eq)

lemma default_cmake_options_handler_ok:
  "well_typed ''default_cmake_options'' v \<Longrightarrow>
   handler_ok default_cmake_options_handler ls rm v \<and>
   handler_out default_cmake_options_handler ls rm v = field_records ls rm ''default_cmake_options'' v"
  by (cases v)
     (simp_all add: well_typed_def handler_ok_def handler_out_def field_records_def
        default_cmake_options_handler_eq)

lemma table_entries:
  "(k, h) \<in> set CMAKE_NEEDED_SETTINGS \<Longrightarrow>
     k = ''framework_path'' \<and> h = scalar_handler ''FPRIME_FRAMEWORK_PATH'' \<or>
     k = ''project_root'' \<and> h = scalar_handler ''FPRIME_PROJECT_ROOT'' \<or>
     k = ''library_locations'' \<and> h = library_locations_handler \<or>
     k = ''default_cmake_options'' \<and> h = default_cmake_options_handler \<or>
     k = ''install_destination'' \<and> h = scalar_handler ''CMAKE_INSTALL_PREFIX''"
  unfolding CMAKE_NEEDED_SETTINGS_def by (simp only: list.set insert_iff empty_iff prod.inject simp_thms)

lemma field_records_scalar:
  "field_records ls rm ''framework_path'' v = record_of rm ''FPRIME_FRAMEWORK_PATH'' (py_str ls v) '';''"
  "field_records ls rm ''project_root'' v = record_of rm ''FPRIME_PROJECT_ROOT'' (py_str ls v) '';''"
  "field_records ls rm ''install_destination'' v = record_of rm ''CMAKE_INSTALL_PREFIX'' (py_str ls v) '';''"
  by (simp_all add: field_records_def)

lemma table_handler_ok:
  assumes "(k, h) \<in> set CMAKE_NEEDED_SETTINGS" and "well_typed k v"
  shows "handler_ok h ls rm v \<and> handler_out h ls rm v = field_records ls rm k v"
  using table_entries[OF assms(1)]
proof (elim disjE conjE)
  assume "k = ''framework_path''" "h = scalar_handler ''FPRIME_FRAMEWORK_PATH''"
  then show ?thesis by (simp only: scalar_handler_ok field_records_scalar simp_thms)
next
  assume "k = ''project_root''" "h = scalar_handler ''FPRIME_PROJECT_ROOT''"
  then show ?thesis by (simp only: scalar_handler_ok field_records_scalar simp_thms)
next
  assume kh: "k = ''library_locations''" "h = library_locations_handler"
  with assms(2) have "well_typed ''library_locations'' v" by simp
  from library_locations_handler_ok[OF this] kh show ?thesis by simp
next
  assume kh: "k = ''default_cmake_options''" "h = default_cmake_options_handler"
  with assms(2) have "well_typed ''default_cmake_options'' v" by simp
  from default_cmake_options_handler_ok[OF this] kh show ?thesis by simp
next
  assume "k = ''install_destination''" "h = scalar_handler ''CMAKE_INSTALL_PREFIX''"
  then show ?thesis by (simp only: scalar_handler_ok field_records_scalar simp_thms)
qed

lemma table_field_ok:
  assumes "f \<in> set CMAKE_NEEDED_SETTINGS" and "agree_ok a b (fst f)"
  shows "field_ok ls rm a b f \<and> loop_out ls rm a b f = expected_stdout ls rm a b (fst f) \<and>
         loop_err a b f = expected_stderr a b (fst f)"
proof (cases "present_value a b (fst f)")
  case None
  then show ?thesis
    by (simp add: field_ok_def loop_out_def loop_err_def expected_stdout_def expected_stderr_def)
next
  case (Some v)
  with assms(2) have bv: "b (fst f) = Some v" and wt: "well_typed (fst f) v"
    by (simp_all add: agree_ok_def)
  from assms(1) have "(fst f, snd f) \<in> set CMAKE_NEEDED_SETTINGS" by simp
  from table_handler_ok[OF this wt, of ls rm] Some bv show ?thesis
    by (simp add: field_ok_def loop_out_def loop_err_def expected_stdout_def expected_stderr_def)
qed

lemma main_ok:
  assumes "load args False = Inr a" and "load args True = Inr b"
    and "\<forall>k\<in>set (map fst CMAKE_NEEDED_SETTINGS). agree_ok a b k"
  shows "main args s =
     (Inr 0,
      s\<lparr>stdout := stdout s @
           concat (map (expected_stdout (list_str args)
                          (derive_remapping (settings args) (resolved args)) a b)
                       (map fst CMAKE_NEEDED_SETTINGS)) @
           record_of (derive_remapping (settings args) (resolved args))
             ''FPRIME_SETTINGS_FILE'' (settings args) [],
         stderr := stderr s @ concat (map (expected_stderr a b) (map fst CMAKE_NEEDED_SETTINGS))\<rparr>)"
proof -
  let ?ls = "list_str args" and ?rm = "derive_remapping (settings args) (resolved args)"
  from assms(3) have ag: "\<forall>f\<in>set CMAKE_NEEDED_SETTINGS. agree_ok a b (fst f)" by simp
  have ok: "\<forall>f\<in>set CMAKE_NEEDED_SETTINGS. field_ok ?ls ?rm a b f"
    using ag table_field_ok by blast
  have o: "map (loop_out ?ls ?rm a b) CMAKE_NEEDED_SETTINGS =
           map (expected_stdout ?ls ?rm a b) (map fst CMAKE_NEEDED_SETTINGS)"
    using ag table_field_ok by (simp add: comp_def)
  have e: "map (loop_err a b) CMAKE_NEEDED_SETTINGS =
           map (expected_stderr a b) (map fst CMAKE_NEEDED_SETTINGS)"
    using ag table_field_ok by (simp add: comp_def)
  show ?thesis
    by (simp add: main_def Let_def assms(1,2) settings_loop_ok[OF ok] o e print_setting_eq)
qed

lemma script_ok:
  assumes "load args False = Inr a" and "load args True = Inr b"
    and "\<forall>k\<in>set (map fst CMAKE_NEEDED_SETTINGS). agree_ok a b k"
  shows "script args =
     (\<lparr>stdout =
           concat (map (expected_stdout (list_str args)
                          (derive_remapping (settings args) (resolved args)) a b)
                       (map fst CMAKE_NEEDED_SETTINGS)) @
           record_of (derive_remapping (settings args) (resolved args))
             ''FPRIME_SETTINGS_FILE'' (settings args) [],
         stderr = concat (map (expected_stderr a b) (map fst CMAKE_NEEDED_SETTINGS))\<rparr>, 0)"
  by (simp add: script_def main_ok[OF assms])

lemma args_with_simps:
  "settings (args_with given real build ut) = given"
  "resolved (args_with given real build ut) = real"
  "load (args_with given real build ut) False = Inr (map_of build)"
  "load (args_with given real build ut) True = Inr (map_of ut)"
  "list_str (args_with given real build ut) = (\<lambda>xs. [])"
  by (simp_all add: args_with_def)

lemma remap_noop: "remap [([], [])] x = x"
  by (simp add: remap_def str_replace_empty_empty)

lemma script_mismatch:
  assumes "load args False = Inr a" and "load args True = Inr b"
    and "CMAKE_NEEDED_SETTINGS = pre @ (k, h) # post"
    and "a k = Some v" and "b k = Some w" and "v \<noteq> w"
    and "settings_loop (list_str args) (derive_remapping (settings args) (resolved args)) a b pre
           \<lparr>stdout = [], stderr = []\<rparr> = (r, s')"
  shows "script args =
     (s'\<lparr>stderr := stderr s' @
          exn_str (case r of Inl e \<Rightarrow> e | Inr u \<Rightarrow> AssertionError assert_message) @ [newline]\<rparr>, 1)"
proof (cases r)
  case (Inl e)
  with assms(7) show ?thesis
    by (simp add: script_def main_def Let_def assms(1,2,3) settings_loop_append print_err_def)
next
  case (Inr u)
  have lb: "loop_body ls rm a b k h s = (Inl (AssertionError assert_message), s)" for ls rm s
    using assms(4,5,6) by (rule loop_body_mismatch)
  from Inr assms(7) show ?thesis
    by (simp add: script_def main_def Let_def assms(1,2,3) settings_loop_append print_err_def lb)
qed

lemma framework_path_step:
  "map_of ut ''framework_path'' = Some (Path ''/home/u/fprime'') \<Longrightarrow>
   loop_body (\<lambda>xs. []) [(''/home/u/'', [])] (map_of build_settings) (map_of ut)
      ''framework_path'' (scalar_handler ''FPRIME_FRAMEWORK_PATH'') \<lparr>stdout = [], stderr = []\<rparr> =
     (Inr (), \<lparr>stdout = ''FPRIME_FRAMEWORK_PATH=fprime;'', stderr = []\<rparr>)"
  by (simp add: loop_body_def try_setting_def getitem_def build_settings_def scalar_handler_eq
      record_of_def remap_def str_replace_def escape_concat)

lemma derive_w: "derive_remapping ''settings.ini'' ''/w/settings.ini'' = [(''/w/'', [])]"
  by (simp add: derive_remapping_def slice_to_neg_def common_suffix_def)

lemma options_only_ok:
  "\<forall>k\<in>set (map fst CMAKE_NEEDED_SETTINGS).
     agree_ok (map_of (options_only text)) (map_of (options_only text)) k"
  by (simp add: setting_names agree_ok_def present_value_def options_only_def well_typed_def)

lemma options_only_stdout:
  "map (expected_stdout ls rm (map_of (options_only text)) (map_of (options_only text)))
       (map fst CMAKE_NEEDED_SETTINGS) =
     [[], [], [], concat (map (option_record rm) (split_on newline text)), []]"
  by (simp add: setting_names expected_stdout_def present_value_def options_only_def
      field_records_def)



lemma split_on_not_Nil: "split_on c s \<noteq> []"
  by (induction s) (auto split: list.splits)

lemma join_first_Cons: "join sep ((x # w) # ws) = x # join sep (w # ws)"
  by (cases ws) simp_all

lemma join_split_on: "join [c] (split_on c s) = s"
proof (induction s)
  case Nil
  then show ?case by simp
next
  case (Cons x xs)
  obtain w ws where sp: "split_on c xs = w # ws"
    using split_on_not_Nil[of c xs] by (cases "split_on c xs") auto
  show ?case
  proof (cases "x = c")
    case True
    with Cons sp show ?thesis by simp
  next
    case False
    with Cons sp show ?thesis by (simp add: join_first_Cons)
  qed
qed

lemma path_root_prefix: "path_root p @ drop (length (path_root p)) p = p"
proof (cases p)
  case Nil
  then show ?thesis by (simp add: path_root_def)
next
  case (Cons a q)
  show ?thesis
  proof (cases q)
    case Nil
    with Cons show ?thesis by (simp add: path_root_def)
  next
    case (Cons b q')
    with \<open>p = a # q\<close> show ?thesis by (auto simp: path_root_def)
  qed
qed

lemma filter_list_all: "list_all P xs \<Longrightarrow> filter P xs = xs"
  by (induction xs) auto

lemma path_str_normal: "normal_path p \<Longrightarrow> path_str p = p"
proof (cases "p = ''.''")
  case True
  then show ?thesis by (simp add: path_str_def path_root_def)
next
  case False
  assume "normal_path p"
  with False have n: "if drop (length (path_root p)) p = [] then path_root p \<noteq> []
      else list_all (\<lambda>x. x \<noteq> [] \<and> x \<noteq> ''.'')
             (split_on (CHR ''/'') (drop (length (path_root p)) p))"
    by (simp add: normal_path_def Let_def)
  show ?thesis
  proof (cases "drop (length (path_root p)) p = []")
    case True
    with n have r: "path_root p \<noteq> []" by simp
    from True path_root_prefix[of p] have "path_root p = p" by simp
    with True r show ?thesis by (simp add: path_str_def Let_def)
  next
    case rel: False
    with n have "list_all (\<lambda>x. x \<noteq> [] \<and> x \<noteq> ''.'')
             (split_on (CHR ''/'') (drop (length (path_root p)) p))" by simp
    then have f: "filter (\<lambda>x. x \<noteq> [] \<and> x \<noteq> ''.'')
             (split_on (CHR ''/'') (drop (length (path_root p)) p)) =
             split_on (CHR ''/'') (drop (length (path_root p)) p)"
      by (rule filter_list_all)
    have j: "join ''/'' (split_on (CHR ''/'') (drop (length (path_root p)) p)) =
             drop (length (path_root p)) p"
      by (rule join_split_on)
    from rel show ?thesis
      by (simp add: path_str_def Let_def f j path_root_prefix)
  qed
qed

lemma path_str_examples:
  "path_str ''./settings.ini'' = ''settings.ini''"
  "path_str ''proj//settings.ini'' = ''proj/settings.ini''"
  "path_str ''proj/settings.ini'' = ''proj/settings.ini''"
  "path_str ''a;b/s.ini'' = ''a;b/s.ini''"
  "path_str ''/w/../s.ini'' = ''/w/../s.ini''"
  "path_str [] = ''.''"
  "path_str ''//a/'' = ''//a''"
  "path_str ''///a'' = ''/a''"
  "path_str ''.'' = ''.''"
  "path_str ''/'' = ''/''"
  "path_str ''a/./b/'' = ''a/b''"
  "path_str ''..'' = ''..''"
  by (simp_all add: path_str_def path_root_def Let_def)

section \<open>The remapping rule\<close>

text \<open>
  Claim C5. The rule is derived from the longest common suffix of the given and the resolved
  settings path (the reversed common prefix of the reversed strings). When that suffix is
  not empty, the rule maps the resolved path without the suffix to the given path without
  the suffix. When the paths share no suffix, the rule maps the empty string to the empty
  string, and applying it changes nothing.
\<close>

theorem derive_remapping_common_suffix:
  "suffix (common_suffix p r) p \<and> suffix (common_suffix p r) r \<and>
   (suffix t p \<and> suffix t r \<longrightarrow> suffix t (common_suffix p r)) \<and>
   (common_suffix p r \<noteq> [] \<longrightarrow>
      (\<exists>key val. derive_remapping p r = [(key, val)] \<and>
         r = key @ common_suffix p r \<and> p = val @ common_suffix p r)) \<and>
   (common_suffix p r = [] \<longrightarrow>
      derive_remapping p r = [([], [])] \<and> remap (derive_remapping p r) x = x)"
proof -
  let ?cs = "common_suffix p r"
  have s1: "suffix ?cs p" and s2: "suffix ?cs r" by (rule common_suffix_suffix)+
  have g: "suffix t p \<and> suffix t r \<longrightarrow> suffix t ?cs"
    using common_suffix_greatest by blast
  have ne: "?cs \<noteq> [] \<longrightarrow> (\<exists>key val. derive_remapping p r = [(key, val)] \<and>
         r = key @ ?cs \<and> p = val @ ?cs)"
    using suffix_take[OF s1] suffix_take[OF s2]
    by (simp add: derive_remapping_def slice_to_neg_def)
  have em: "?cs = [] \<longrightarrow> derive_remapping p r = [([], [])] \<and> remap (derive_remapping p r) x = x"
    by (simp add: derive_remapping_def slice_to_neg_def remap_def str_replace_empty_empty)
  from s1 s2 g ne em show ?thesis by blast
qed

text \<open>
  The rule of the example paths (a non-empty common suffix), and the rule of two paths
  that share no suffix.
\<close>

theorem derive_remapping_common_suffix_witness:
  "common_suffix ''proj/settings.ini'' ''/home/u/proj/settings.ini'' \<noteq> [] \<and>
   derive_remapping ''proj/settings.ini'' ''/home/u/proj/settings.ini'' = [(''/home/u/'', [])] \<and>
   ''/home/u/proj/settings.ini'' = ''/home/u/'' @ common_suffix ''proj/settings.ini'' ''/home/u/proj/settings.ini'' \<and>
   common_suffix ''a.ini'' ''/w/a.cfg'' = [] \<and>
   derive_remapping ''a.ini'' ''/w/a.cfg'' = [([], [])] \<and>
   remap (derive_remapping ''a.ini'' ''/w/a.cfg'') ''/w/lib'' = ''/w/lib''"
  using derive_remapping_common_suffix
          [of "''proj/settings.ini''" "''/home/u/proj/settings.ini''" "''.ini''" "[]"]
        derive_remapping_common_suffix [of "''a.ini''" "''/w/a.cfg''" "[]" "''/w/lib''"]
  by (simp add: common_suffix_def derive_remapping_def slice_to_neg_def)




section \<open>Emission of the fields\<close>

text \<open>
  Claim C3, as stated, fails: the record of the example is not
  \<^verbatim>\<open>FPRIME_LIBRARY_LOCATIONS=proj/lib1;proj/lib2;\<close>.
\<close>

theorem library_locations_example_escaped:
  "stdout (snd (library_locations_handler (\<lambda>xs. [])
       (derive_remapping ''proj/settings.ini'' ''/home/u/proj/settings.ini'')
       (Seq [''/home/u/proj/lib1'', ''/home/u/proj/lib2'']) \<lparr>stdout = [], stderr = []\<rparr>))
   \<noteq> ''FPRIME_LIBRARY_LOCATIONS=proj/lib1;proj/lib2;''"
  by (simp add: derive_example library_locations_handler_eq[where items = "[''/home/u/proj/lib1'', ''/home/u/proj/lib2'']"]
      record_of_def remap_def escape_concat str_replace_def backslash_def)

text \<open>
  Claim C3, amended. With the rule \<^verbatim>\<open>/home/u/\<close> to the empty string, which is the rule
  of the example paths, the two library locations are joined with \<^verbatim>\<open>;\<close>, that separator
  is escaped like every other \<^verbatim>\<open>;\<close> of a value, and the single record
  \<^verbatim>\<open>FPRIME_LIBRARY_LOCATIONS=proj/lib1\;proj/lib2;\<close> is printed.
\<close>

theorem library_locations_example:
  "derive_remapping ''proj/settings.ini'' ''/home/u/proj/settings.ini'' = [(''/home/u/'', [])] \<and>
   library_locations_handler ls [(''/home/u/'', [])]
       (Seq [''/home/u/proj/lib1'', ''/home/u/proj/lib2'']) s =
     (Inr (), s\<lparr>stdout := stdout s @
        ''FPRIME_LIBRARY_LOCATIONS=proj/lib1'' @ [backslash] @ '';proj/lib2;''\<rparr>)"
  by (simp add: derive_example library_locations_handler_eq[where items = "[''/home/u/proj/lib1'', ''/home/u/proj/lib2'']"]
      record_of_def remap_def escape_concat str_replace_def backslash_def)

text \<open>
  Claim C10. Every record is printed by \<^verbatim>\<open>print_setting\<close>, which escapes the value
  first and applies the remapping to the escaped text. So where the escaped value starts
  with the resolved prefix, the record carries the given prefix as it is: a \<^verbatim>\<open>;\<close> in the
  given prefix is printed without a backslash.
\<close>

theorem escaping_precedes_remapping:
  "print_setting ls REMAPPING name v ending s =
     s\<lparr>stdout := stdout s @ name @ ''='' @ remap REMAPPING (escape (py_str ls v)) @ ending\<rparr> \<and>
   (initial \<noteq> [] \<longrightarrow> escape (py_str ls v) = initial @ rest \<longrightarrow>
      print_setting ls [(initial, final)] name v ending s =
        s\<lparr>stdout := stdout s @ name @ ''='' @ final @ str_replace initial final rest @ ending\<rparr>)"
  by (simp add: print_setting_eq record_of_def remap_single str_replace_prefix)

text \<open>
  With the settings file given as \<^verbatim>\<open>a;b/s.ini\<close> and resolved to \<^verbatim>\<open>/w/s.ini\<close>, the
  value \<^verbatim>\<open>/w/lib;x\<close> is printed as \<^verbatim>\<open>a;b/lib\;x\<close>.
\<close>

theorem escaping_precedes_remapping_witness:
  "derive_remapping ''a;b/s.ini'' ''/w/s.ini'' = [(''/w'', ''a;b'')] \<and>
   ''/w'' \<noteq> [] \<and>
   escape (py_str (\<lambda>xs. []) (Path ''/w/lib;x'')) = ''/w'' @ ''/lib'' @ [backslash] @ '';x'' \<and>
   print_setting (\<lambda>xs. []) [(''/w'', ''a;b'')] ''FPRIME_PROJECT_ROOT'' (Path ''/w/lib;x'') '';''
       \<lparr>stdout = [], stderr = []\<rparr> =
     \<lparr>stdout = ''FPRIME_PROJECT_ROOT=a;b/lib'' @ [backslash] @ '';x;'', stderr = []\<rparr>"
proof -
  have e: "escape (py_str (\<lambda>xs. []) (Path ''/w/lib;x'')) = ''/w'' @ ''/lib'' @ [backslash] @ '';x''"
    by (simp add: escape_concat)
  have d: "derive_remapping ''a;b/s.ini'' ''/w/s.ini'' = [(''/w'', ''a;b'')]"
    by (simp add: derive_remapping_def slice_to_neg_def common_suffix_def)
  have r: "str_replace ''/w'' ''a;b'' (''/lib'' @ [backslash] @ '';x'') = ''/lib'' @ [backslash] @ '';x''"
    by (simp add: str_replace_def backslash_def)
  from escaping_precedes_remapping
         [of "\<lambda>xs. []" "[(''/w'', ''a;b'')]" "''FPRIME_PROJECT_ROOT''" "Path ''/w/lib;x''" "'';''"
             "\<lparr>stdout = [], stderr = []\<rparr>" "''/w''" "''/lib'' @ [backslash] @ '';x''" "''a;b''"]
       e d r
  show ?thesis by (simp add: remap_def str_replace_def backslash_def)
qed

text \<open>
  Claim C9. The default options are split at the newlines, and every line prints its own
  record: a line \<^verbatim>\<open>KEY=VALUE\<close> (after stripping) with a non-empty key prints
  \<^verbatim>\<open>KEY=VALUE;\<close> under its own key, the value escaped and remapped like every value; a
  line that is empty or starts with \<^verbatim>\<open>=\<close> prints nothing.
\<close>

theorem default_cmake_options_records:
  "default_cmake_options_handler ls REMAPPING (Str text) s =
     (Inr (), s\<lparr>stdout := stdout s @ concat (map (option_record REMAPPING) (split_on newline text))\<rparr>) \<and>
   (key \<noteq> [] \<longrightarrow> CHR ''='' \<notin> set key \<longrightarrow> strip line = key @ ''='' @ v \<longrightarrow>
      option_record REMAPPING line = key @ ''='' @ remap REMAPPING (escape v) @ '';'') \<and>
   (strip line' = [] \<or> hd (strip line') = CHR ''='' \<longrightarrow> option_record REMAPPING line' = [])"
proof -
  have a: "key \<noteq> [] \<longrightarrow> CHR ''='' \<notin> set key \<longrightarrow> strip line = key @ ''='' @ v \<longrightarrow>
      option_record REMAPPING line = key @ ''='' @ remap REMAPPING (escape v) @ '';''"
  proof (intro impI)
    assume k: "key \<noteq> []" and n: "CHR ''='' \<notin> set key" and l: "strip line = key @ ''='' @ v"
    from n have tw: "takeWhile (\<lambda>c. c \<noteq> CHR ''='') (key @ CHR ''='' # v) = key"
      by (simp add: takeWhile_until)
    from n have dw: "dropWhile (\<lambda>c. c \<noteq> CHR ''='') (key @ CHR ''='' # v) = CHR ''='' # v"
      by (simp add: dropWhile_until)
    show "option_record REMAPPING line = key @ ''='' @ remap REMAPPING (escape v) @ '';''"
      using k by (simp add: option_record_def Let_def l tw dw record_of_def)
  qed
  have b: "strip line' = [] \<or> hd (strip line') = CHR ''='' \<longrightarrow> option_record REMAPPING line' = []"
    by (cases "strip line'") (auto simp: option_record_def Let_def)
  from a b show ?thesis
    by (simp add: default_cmake_options_handler_eq)
qed

text \<open>
  Four lines: a plain option, an option with blanks around it and a \<^verbatim>\<open>;\<close> in its value,
  a line without a key, and a key without a value.
\<close>

theorem default_cmake_options_records_witness:
  "''B'' \<noteq> [] \<and> CHR ''='' \<notin> set ''B'' \<and> strip ''  B=2;3  '' = ''B'' @ ''='' @ ''2;3'' \<and>
   option_record [([], [])] ''  B=2;3  '' = ''B=2'' @ [backslash] @ '';3;'' \<and>
   hd (strip ''=x'') = CHR ''='' \<and>
   option_record [([], [])] ''=x'' = [] \<and>
   default_cmake_options_handler (\<lambda>xs. []) [([], [])]
       (Str (''A=1'' @ [newline] @ ''  B=2;3  '' @ [newline] @ ''=x'' @ [newline] @ ''C''))
       \<lparr>stdout = [], stderr = []\<rparr> =
     (Inr (), \<lparr>stdout = ''A=1;B=2'' @ [backslash] @ '';3;C=;'', stderr = []\<rparr>)"
proof -
  have s1: "strip ''A=1'' = ''A=1''" "strip ''  B=2;3  '' = ''B=2;3''" "strip ''=x'' = ''=x''" "strip ''C'' = ''C''"
    by (simp_all add: strip_def isspace_def)
  have r: "remap [([], [])] x = x" for x
    by (simp add: remap_def str_replace_empty_empty)
  have o: "option_record [([], [])] ''A=1'' = ''A=1;''" "option_record [([], [])] ''C'' = ''C=;''"
    by (simp_all add: option_record_def Let_def s1 record_of_def r escape_concat)
  from default_cmake_options_records
         [of "\<lambda>xs. []" "[([], [])]"
             "''A=1'' @ [newline] @ ''  B=2;3  '' @ [newline] @ ''=x'' @ [newline] @ ''C''"
             "\<lparr>stdout = [], stderr = []\<rparr>" "''B''" "''  B=2;3  ''" "''2;3''" "''=x''"]
  show ?thesis
    by (simp add: newline_def backslash_def s1 o r escape_concat)
qed

text \<open>
  Claim C6, as stated, fails for a value that ends in a backslash: the value made of a
  \<^verbatim>\<open>;\<close> and a backslash, printed with the delimiter \<^verbatim>\<open>;\<close>, gives the same text as the
  value \<^verbatim>\<open>;;\<close> printed without a delimiter, and the parser reads it as the latter.
\<close>

theorem trailing_backslash_breaks_round_trip:
  "CHR '';'' \<in> set [CHR '';'', backslash] \<and>
   stdout (print_setting (\<lambda>xs. []) [([], [])] ''FPRIME_PROJECT_ROOT'' (Str [CHR '';'', backslash]) '';''
             \<lparr>stdout = [], stderr = []\<rparr>) =
   stdout (print_setting (\<lambda>xs. []) [([], [])] ''FPRIME_PROJECT_ROOT'' (Str '';;'') []
             \<lparr>stdout = [], stderr = []\<rparr>) \<and>
   parse_records
     (stdout (print_setting (\<lambda>xs. []) [([], [])] ''FPRIME_PROJECT_ROOT'' (Str [CHR '';'', backslash]) '';''
                \<lparr>stdout = [], stderr = []\<rparr>)) =
     [''FPRIME_PROJECT_ROOT=;;'']"
  by (simp add: print_setting_eq record_of_def remap_noop escape_concat backslash_def)

text \<open>
  Claim C6, amended. Every \<^verbatim>\<open>;\<close> of a value is replaced by \<^verbatim>\<open>\;\<close>; the escaping is
  injective, and mapping \<^verbatim>\<open>\;\<close> back to \<^verbatim>\<open>;\<close> recovers every value. When the value does
  not end in a backslash, the name holds no \<^verbatim>\<open>;\<close> and the remapping leaves the escaped
  value as it is, the parser splits the record off the output and recovers name and value
  exactly.
\<close>

theorem escaped_record_round_trip:
  assumes "CHR '';'' \<notin> set name" and "v = [] \<or> last v \<noteq> backslash"
    and "remap REMAPPING (escape v) = escape v"
  shows "escape v = concat (map (\<lambda>c. if c = CHR '';'' then [backslash, CHR '';''] else [c]) v) \<and>
         parse_records
           (stdout (print_setting ls REMAPPING name (Str v) '';'' \<lparr>stdout = [], stderr = []\<rparr>) @ rest) =
           (name @ ''='' @ v) # parse_records rest \<and>
         unescape (escape v) = v \<and>
         (escape v = escape w \<longrightarrow> v = w)"
proof -
  have "stdout (print_setting ls REMAPPING name (Str v) '';'' \<lparr>stdout = [], stderr = []\<rparr>) @ rest =
        name @ ''='' @ escape v @ '';'' @ rest"
    by (simp add: print_setting_eq record_of_def assms(3))
  with parse_records_record[OF assms(1,2)] have
    "parse_records
       (stdout (print_setting ls REMAPPING name (Str v) '';'' \<lparr>stdout = [], stderr = []\<rparr>) @ rest) =
     (name @ ''='' @ v) # parse_records rest"
    by simp
  then show ?thesis
    using escape_concat unescape_escape escape_inj by blast
qed

text \<open>
  The value \<^verbatim>\<open>a;b\<close>, followed by the record of the settings file.
\<close>

theorem escaped_record_round_trip_witness:
  "CHR '';'' \<notin> set ''CMAKE_INSTALL_PREFIX'' \<and>
   (''a;b'' = [] \<or> last ''a;b'' \<noteq> backslash) \<and>
   remap [([], [])] (escape ''a;b'') = escape ''a;b'' \<and>
   escape ''a;b'' = ''a'' @ [backslash] @ '';b'' \<and>
   escape ''a;b'' = escape ''a;b'' \<and>
   parse_records
     (stdout (print_setting (\<lambda>xs. []) [([], [])] ''CMAKE_INSTALL_PREFIX'' (Str ''a;b'') '';''
                \<lparr>stdout = [], stderr = []\<rparr>) @ ''FPRIME_SETTINGS_FILE=s.ini'') =
     [''CMAKE_INSTALL_PREFIX=a;b'', ''FPRIME_SETTINGS_FILE=s.ini'']"
proof -
  have n: "CHR '';'' \<notin> set ''CMAKE_INSTALL_PREFIX''" by simp
  have l: "''a;b'' = [] \<or> last ''a;b'' \<noteq> backslash" by (simp add: backslash_def)
  have r: "remap [([], [])] (escape ''a;b'') = escape ''a;b''" by (rule remap_noop)
  have p: "parse_records ''FPRIME_SETTINGS_FILE=s.ini'' = [''FPRIME_SETTINGS_FILE=s.ini'']"
    by (simp add: backslash_def)
  from escaped_record_round_trip[OF n l r, where ls = "\<lambda>xs. []"
         and rest = "''FPRIME_SETTINGS_FILE=s.ini''" and w = "''a;b''"]
       n l r p
  show ?thesis by simp
qed

section \<open>The whole run\<close>

text \<open>
  Claim C1, as stated, fails: the default options print one record per line, not one
  record for the field. With the empty text, present and equal in both variants, the run
  prints the record of the settings file only; with two lines it prints two records.
\<close>

theorem options_field_not_one_record:
  "present_value (map_of (options_only [])) (map_of (options_only [])) ''default_cmake_options'' =
     Some (Str []) \<and>
   snd (script (args_with ''settings.ini'' ''/w/settings.ini'' (options_only []) (options_only []))) = 0 \<and>
   stdout (fst (script (args_with ''settings.ini'' ''/w/settings.ini''
                          (options_only []) (options_only [])))) =
     ''FPRIME_SETTINGS_FILE=settings.ini'' \<and>
   stdout (fst (script (args_with ''settings.ini'' ''/w/settings.ini''
                          (options_only (''A=1'' @ [newline] @ ''B=2''))
                          (options_only (''A=1'' @ [newline] @ ''B=2''))))) =
     ''A=1;B=2;FPRIME_SETTINGS_FILE=settings.ini''"
proof -
  have tr: "record_of [(''/w/'', [])] ''FPRIME_SETTINGS_FILE'' ''settings.ini'' [] =
      ''FPRIME_SETTINGS_FILE=settings.ini''"
    by (simp add: record_of_def remap_def str_replace_def escape_concat)
  have st: "strip [] = []" "strip ''A=1'' = ''A=1''" "strip ''B=2'' = ''B=2''"
    by (simp_all add: strip_def isspace_def)
  have o: "option_record [(''/w/'', [])] [] = []"
      "option_record [(''/w/'', [])] ''A=1'' = ''A=1;''"
      "option_record [(''/w/'', [])] ''B=2'' = ''B=2;''"
    by (simp_all add: option_record_def Let_def st record_of_def remap_def str_replace_def
        escape_concat)
  have p: "present_value (map_of (options_only [])) (map_of (options_only []))
      ''default_cmake_options'' = Some (Str [])"
    by (simp add: present_value_def options_only_def)
  have s1: "script (args_with ''settings.ini'' ''/w/settings.ini'' (options_only []) (options_only [])) =
      (\<lparr>stdout = ''FPRIME_SETTINGS_FILE=settings.ini'',
        stderr = concat (map (expected_stderr (map_of (options_only [])) (map_of (options_only [])))
                          (map fst CMAKE_NEEDED_SETTINGS))\<rparr>, 0)"
    using script_ok[OF args_with_simps(3) args_with_simps(4) options_only_ok,
        of "''settings.ini''" "''/w/settings.ini''" "[]"]
    by (simp add: args_with_simps derive_w options_only_stdout tr o del: map_map)
  have s2: "script (args_with ''settings.ini'' ''/w/settings.ini''
                          (options_only (''A=1'' @ [newline] @ ''B=2''))
                          (options_only (''A=1'' @ [newline] @ ''B=2''))) =
      (\<lparr>stdout = ''A=1;B=2;FPRIME_SETTINGS_FILE=settings.ini'',
        stderr = concat (map (expected_stderr (map_of (options_only (''A=1'' @ [newline] @ ''B=2'')))
                                (map_of (options_only (''A=1'' @ [newline] @ ''B=2''))))
                          (map fst CMAKE_NEEDED_SETTINGS))\<rparr>, 0)"
    using script_ok[OF args_with_simps(3) args_with_simps(4) options_only_ok,
        of "''settings.ini''" "''/w/settings.ini''" "''A=1'' @ [newline] @ ''B=2''"]
    by (simp add: args_with_simps derive_w options_only_stdout tr o newline_def del: map_map)
  from p show ?thesis by (simp only: s1 s2 fst_conv snd_conv io.simps simp_thms)
qed

text \<open>
  Claim C1, amended. When both variants resolve and every field of the table is missing
  from a variant or holds the same value in both (of a type its handler accepts), the run
  exits with status 0 and prints, in the order of the table, what each present field
  emits: one record for each of \<^verbatim>\<open>framework_path\<close>, \<^verbatim>\<open>project_root\<close>,
  \<^verbatim>\<open>library_locations\<close> and \<^verbatim>\<open>install_destination\<close>, one record per line with a key for
  \<^verbatim>\<open>default_cmake_options\<close>, and then the record \<^verbatim>\<open>FPRIME_SETTINGS_FILE\<close> without a
  delimiter.
\<close>

theorem agreeing_settings_emitted_in_order:
  assumes "load args False = Inr a" and "load args True = Inr b"
    and "\<forall>k\<in>set (map fst CMAKE_NEEDED_SETTINGS). agree_ok a b k"
  shows "map fst CMAKE_NEEDED_SETTINGS =
           [''framework_path'', ''project_root'', ''library_locations'',
            ''default_cmake_options'', ''install_destination''] \<and>
         snd (script args) = 0 \<and>
         stdout (fst (script args)) =
           expected_stdout (list_str args) (derive_remapping (settings args) (resolved args)) a b
             ''framework_path'' @
           expected_stdout (list_str args) (derive_remapping (settings args) (resolved args)) a b
             ''project_root'' @
           expected_stdout (list_str args) (derive_remapping (settings args) (resolved args)) a b
             ''library_locations'' @
           expected_stdout (list_str args) (derive_remapping (settings args) (resolved args)) a b
             ''default_cmake_options'' @
           expected_stdout (list_str args) (derive_remapping (settings args) (resolved args)) a b
             ''install_destination'' @
           ''FPRIME_SETTINGS_FILE='' @
           remap (derive_remapping (settings args) (resolved args)) (escape (settings args))"
  by (simp add: script_ok[OF assms] setting_names record_of_def)

text \<open>
  The run of the example: framework path, library locations and two default options.
\<close>

theorem agreeing_settings_emitted_in_order_witness:
  "load (args_with ''proj/settings.ini'' ''/home/u/proj/settings.ini'' example_settings example_settings)
      False = Inr (map_of example_settings) \<and>
   load (args_with ''proj/settings.ini'' ''/home/u/proj/settings.ini'' example_settings example_settings)
      True = Inr (map_of example_settings) \<and>
   snd (script (args_with ''proj/settings.ini'' ''/home/u/proj/settings.ini''
                  example_settings example_settings)) = 0 \<and>
   stdout (fst (script (args_with ''proj/settings.ini'' ''/home/u/proj/settings.ini''
                          example_settings example_settings))) =
     ''FPRIME_FRAMEWORK_PATH=fprime;FPRIME_LIBRARY_LOCATIONS=proj/lib1'' @ [backslash] @
     '';proj/lib2;A=1;B=2;FPRIME_SETTINGS_FILE=proj/settings.ini''"
proof -
  let ?args = "args_with ''proj/settings.ini'' ''/home/u/proj/settings.ini''
                 example_settings example_settings"
  have l1: "load ?args False = Inr (map_of example_settings)"
    and l2: "load ?args True = Inr (map_of example_settings)"
    by (simp_all add: args_with_simps)
  have ag: "\<forall>k\<in>set (map fst CMAKE_NEEDED_SETTINGS).
      agree_ok (map_of example_settings) (map_of example_settings) k"
    by (simp add: setting_names agree_ok_def present_value_def example_settings_def well_typed_def)
  have st: "strip ''A=1'' = ''A=1''" "strip ''B=2'' = ''B=2''"
    by (simp_all add: strip_def isspace_def)
  have ex: "expected_stdout (\<lambda>xs. []) [(''/home/u/'', [])] (map_of example_settings)
        (map_of example_settings) ''framework_path'' = ''FPRIME_FRAMEWORK_PATH=fprime;''"
      "expected_stdout (\<lambda>xs. []) [(''/home/u/'', [])] (map_of example_settings)
        (map_of example_settings) ''project_root'' = []"
      "expected_stdout (\<lambda>xs. []) [(''/home/u/'', [])] (map_of example_settings)
        (map_of example_settings) ''library_locations'' =
          ''FPRIME_LIBRARY_LOCATIONS=proj/lib1'' @ [backslash] @ '';proj/lib2;''"
      "expected_stdout (\<lambda>xs. []) [(''/home/u/'', [])] (map_of example_settings)
        (map_of example_settings) ''default_cmake_options'' = ''A=1;B=2;''"
      "expected_stdout (\<lambda>xs. []) [(''/home/u/'', [])] (map_of example_settings)
        (map_of example_settings) ''install_destination'' = []"
    by (simp_all add: expected_stdout_def present_value_def example_settings_def field_records_def
        record_of_def remap_def str_replace_def escape_concat newline_def st option_record_def Let_def
        backslash_def)
  have tr: "remap [(''/home/u/'', [])] (escape ''proj/settings.ini'') = ''proj/settings.ini''"
    by (simp add: remap_def str_replace_def escape_concat)
  from agreeing_settings_emitted_in_order[OF l1 l2 ag]
  have "snd (script ?args) = 0 \<and>
    stdout (fst (script ?args)) =
     ''FPRIME_FRAMEWORK_PATH=fprime;FPRIME_LIBRARY_LOCATIONS=proj/lib1'' @ [backslash] @
     '';proj/lib2;A=1;B=2;FPRIME_SETTINGS_FILE=proj/settings.ini''"
    by (simp add: args_with_simps derive_example ex tr)
  with l1 l2 show ?thesis by blast
qed

text \<open>
  Claim C2. When a field of the table is present in both variants with different values,
  the run exits with status 1; standard output holds only what the loop printed for the
  fields before it, so no record of that field, of a later field or of the settings file;
  and the message of the failure is written to the diagnostic stream, which is the message
  of the assertion unless an earlier field has already raised.
\<close>

theorem mismatch_aborts_run:
  assumes "load args False = Inr a" and "load args True = Inr b"
    and "CMAKE_NEEDED_SETTINGS = pre @ (k, h) # post"
    and "a k = Some v" and "b k = Some w" and "v \<noteq> w"
  shows "snd (script args) = 1 \<and>
         stdout (fst (script args)) =
           stdout (snd (settings_loop (list_str args)
                          (derive_remapping (settings args) (resolved args)) a b pre
                          \<lparr>stdout = [], stderr = []\<rparr>)) \<and>
         stderr (fst (script args)) =
           stderr (snd (settings_loop (list_str args)
                          (derive_remapping (settings args) (resolved args)) a b pre
                          \<lparr>stdout = [], stderr = []\<rparr>)) @
           exn_str (case fst (settings_loop (list_str args)
                                (derive_remapping (settings args) (resolved args)) a b pre
                                \<lparr>stdout = [], stderr = []\<rparr>) of
                      Inl e \<Rightarrow> e
                    | Inr u \<Rightarrow> AssertionError assert_message) @ [newline]"
proof -
  obtain r s' where l: "settings_loop (list_str args)
      (derive_remapping (settings args) (resolved args)) a b pre \<lparr>stdout = [], stderr = []\<rparr> = (r, s')"
    by (cases "settings_loop (list_str args)
      (derive_remapping (settings args) (resolved args)) a b pre \<lparr>stdout = [], stderr = []\<rparr>")
  from script_mismatch[OF assms l] l show ?thesis by simp
qed

text \<open>
  The project root differs between the variants: the framework path is printed, then
  the run is aborted.
\<close>

theorem mismatch_aborts_run_witness:
  "load (args_with ''proj/settings.ini'' ''/home/u/proj/settings.ini'' build_settings ut_settings_other_root)
     False = Inr (map_of build_settings) \<and>
   load (args_with ''proj/settings.ini'' ''/home/u/proj/settings.ini'' build_settings ut_settings_other_root)
     True = Inr (map_of ut_settings_other_root) \<and>
   CMAKE_NEEDED_SETTINGS = [(''framework_path'', scalar_handler ''FPRIME_FRAMEWORK_PATH'')] @
     (''project_root'', scalar_handler ''FPRIME_PROJECT_ROOT'') #
     [(''library_locations'', library_locations_handler),
      (''default_cmake_options'', default_cmake_options_handler),
      (''install_destination'', scalar_handler ''CMAKE_INSTALL_PREFIX'')] \<and>
   map_of build_settings ''project_root'' = Some (Path ''/home/u/proj'') \<and>
   map_of ut_settings_other_root ''project_root'' = Some (Path ''/home/u/other'') \<and>
   Path ''/home/u/proj'' \<noteq> Path ''/home/u/other'' \<and>
   script (args_with ''proj/settings.ini'' ''/home/u/proj/settings.ini'' build_settings
             ut_settings_other_root) =
     (\<lparr>stdout = ''FPRIME_FRAMEWORK_PATH=fprime;'',
       stderr = ''CMake can only parse unittest independent settings'' @ [newline]\<rparr>, 1)"
proof -
  let ?args = "args_with ''proj/settings.ini'' ''/home/u/proj/settings.ini'' build_settings
                 ut_settings_other_root"
  have l1: "load ?args False = Inr (map_of build_settings)"
    and l2: "load ?args True = Inr (map_of ut_settings_other_root)"
    by (simp_all add: args_with_simps)
  have t: "CMAKE_NEEDED_SETTINGS = [(''framework_path'', scalar_handler ''FPRIME_FRAMEWORK_PATH'')] @
     (''project_root'', scalar_handler ''FPRIME_PROJECT_ROOT'') #
     [(''library_locations'', library_locations_handler),
      (''default_cmake_options'', default_cmake_options_handler),
      (''install_destination'', scalar_handler ''CMAKE_INSTALL_PREFIX'')]"
    by (simp add: CMAKE_NEEDED_SETTINGS_def)
  have a: "map_of build_settings ''project_root'' = Some (Path ''/home/u/proj'')"
    by (simp add: build_settings_def)
  have b: "map_of ut_settings_other_root ''project_root'' = Some (Path ''/home/u/other'')"
    by (simp add: ut_settings_other_root_def)
  have n: "Path ''/home/u/proj'' \<noteq> Path ''/home/u/other''" by simp
  have f: "map_of ut_settings_other_root ''framework_path'' = Some (Path ''/home/u/fprime'')"
    by (simp add: ut_settings_other_root_def)
  note pre = framework_path_step[of ut_settings_other_root, OF f]
  from mismatch_aborts_run[OF l1 l2 t a b n]
  have "script ?args = (\<lparr>stdout = ''FPRIME_FRAMEWORK_PATH=fprime;'',
       stderr = ''CMake can only parse unittest independent settings'' @ [newline]\<rparr>, 1)"
    by (simp add: args_with_simps derive_example pre assert_message_def prod_eq_iff io.equality)
  with l1 l2 t a b n show ?thesis by blast
qed

text \<open>
  Claim C4. For a field missing from either variant, the iteration writes the warning
  that names the field to the diagnostic stream, prints nothing and raises nothing, so the
  loop goes on with the remaining fields; and when no other field aborts the run, the run
  exits with status 0, standard output holds nothing for the field, and the diagnostic
  stream holds its warning.
\<close>

theorem missing_field_warns_and_continues:
  assumes "a k = None \<or> b k = None"
  shows "loop_body ls REMAPPING a b k h s =
           (Inr (), s\<lparr>stderr := stderr s @ ''[WARNING] Failed to load settings.ini field '' @
                        [quote] @ k @ [quote] @ ''. Update fprime-util.;''\<rparr>) \<and>
         settings_loop ls REMAPPING a b (pre @ (k, h) # post) s =
           (case settings_loop ls REMAPPING a b pre s of
              (Inl e, s') \<Rightarrow> (Inl e, s')
            | (Inr u, s') \<Rightarrow>
                settings_loop ls REMAPPING a b post
                  (s'\<lparr>stderr := stderr s' @ warning (KeyError k) @ '';''\<rparr>)) \<and>
         (load args False = Inr a \<longrightarrow> load args True = Inr b \<longrightarrow>
          (\<forall>k'\<in>set (map fst CMAKE_NEEDED_SETTINGS). agree_ok a b k') \<longrightarrow>
            snd (script args) = 0 \<and>
            expected_stdout (list_str args) (derive_remapping (settings args) (resolved args)) a b k = [] \<and>
            expected_stderr a b k = warning (KeyError k) @ '';'' \<and>
            stdout (fst (script args)) =
              concat (map (expected_stdout (list_str args)
                             (derive_remapping (settings args) (resolved args)) a b)
                          (map fst CMAKE_NEEDED_SETTINGS)) @
              ''FPRIME_SETTINGS_FILE='' @
              remap (derive_remapping (settings args) (resolved args)) (escape (settings args)) \<and>
            stderr (fst (script args)) =
              concat (map (expected_stderr a b) (map fst CMAKE_NEEDED_SETTINGS)))"
proof -
  have lb: "loop_body ls REMAPPING a b k h s =
      (Inr (), s\<lparr>stderr := stderr s @ warning (KeyError k) @ '';''\<rparr>)" for s
    using assms by (rule loop_body_missing)
  have w: "warning (KeyError k) @ '';'' = ''[WARNING] Failed to load settings.ini field '' @
                        [quote] @ k @ [quote] @ ''. Update fprime-util.;''"
    by (simp add: warning_def)
  have p1: "loop_body ls REMAPPING a b k h s =
           (Inr (), s\<lparr>stderr := stderr s @ ''[WARNING] Failed to load settings.ini field '' @
                        [quote] @ k @ [quote] @ ''. Update fprime-util.;''\<rparr>)"
    by (simp only: lb w)
  have p2: "settings_loop ls REMAPPING a b (pre @ (k, h) # post) s =
           (case settings_loop ls REMAPPING a b pre s of
              (Inl e, s') \<Rightarrow> (Inl e, s')
            | (Inr u, s') \<Rightarrow>
                settings_loop ls REMAPPING a b post
                  (s'\<lparr>stderr := stderr s' @ warning (KeyError k) @ '';''\<rparr>))"
    by (simp add: settings_loop_append lb split: prod.splits sum.splits)
  from assms have pv: "present_value a b k = None" by (simp add: present_value_None)
  have p3: "load args False = Inr a \<longrightarrow> load args True = Inr b \<longrightarrow>
          (\<forall>k'\<in>set (map fst CMAKE_NEEDED_SETTINGS). agree_ok a b k') \<longrightarrow>
            snd (script args) = 0 \<and>
            expected_stdout (list_str args) (derive_remapping (settings args) (resolved args)) a b k = [] \<and>
            expected_stderr a b k = warning (KeyError k) @ '';'' \<and>
            stdout (fst (script args)) =
              concat (map (expected_stdout (list_str args)
                             (derive_remapping (settings args) (resolved args)) a b)
                          (map fst CMAKE_NEEDED_SETTINGS)) @
              ''FPRIME_SETTINGS_FILE='' @
              remap (derive_remapping (settings args) (resolved args)) (escape (settings args)) \<and>
            stderr (fst (script args)) =
              concat (map (expected_stderr a b) (map fst CMAKE_NEEDED_SETTINGS))"
  proof (intro impI)
    assume l1: "load args False = Inr a" and l2: "load args True = Inr b"
      and ag: "\<forall>k'\<in>set (map fst CMAKE_NEEDED_SETTINGS). agree_ok a b k'"
    from script_ok[OF l1 l2 ag] pv
    show "snd (script args) = 0 \<and>
            expected_stdout (list_str args) (derive_remapping (settings args) (resolved args)) a b k = [] \<and>
            expected_stderr a b k = warning (KeyError k) @ '';'' \<and>
            stdout (fst (script args)) =
              concat (map (expected_stdout (list_str args)
                             (derive_remapping (settings args) (resolved args)) a b)
                          (map fst CMAKE_NEEDED_SETTINGS)) @
              ''FPRIME_SETTINGS_FILE='' @
              remap (derive_remapping (settings args) (resolved args)) (escape (settings args)) \<and>
            stderr (fst (script args)) =
              concat (map (expected_stderr a b) (map fst CMAKE_NEEDED_SETTINGS))"
      by (simp add: expected_stdout_def expected_stderr_def record_of_def)
  qed
  from p1 p2 p3 show ?thesis by (intro conjI)
qed

text \<open>
  The project root is present in the build variant and absent in the unit-test variant.
\<close>

theorem missing_field_warns_and_continues_witness:
  "(map_of build_settings ''project_root'' = None \<or> map_of ut_settings_no_root ''project_root'' = None) \<and>
   load (args_with ''proj/settings.ini'' ''/home/u/proj/settings.ini'' build_settings ut_settings_no_root)
     False = Inr (map_of build_settings) \<and>
   load (args_with ''proj/settings.ini'' ''/home/u/proj/settings.ini'' build_settings ut_settings_no_root)
     True = Inr (map_of ut_settings_no_root) \<and>
   snd (script (args_with ''proj/settings.ini'' ''/home/u/proj/settings.ini'' build_settings
                  ut_settings_no_root)) = 0 \<and>
   stdout (fst (script (args_with ''proj/settings.ini'' ''/home/u/proj/settings.ini'' build_settings
                          ut_settings_no_root))) =
     ''FPRIME_FRAMEWORK_PATH=fprime;FPRIME_SETTINGS_FILE=proj/settings.ini'' \<and>
   stderr (fst (script (args_with ''proj/settings.ini'' ''/home/u/proj/settings.ini'' build_settings
                          ut_settings_no_root))) =
     warning (KeyError ''project_root'') @ '';'' @
     warning (KeyError ''library_locations'') @ '';'' @
     warning (KeyError ''default_cmake_options'') @ '';'' @
     warning (KeyError ''install_destination'') @ '';''"
proof -
  let ?args = "args_with ''proj/settings.ini'' ''/home/u/proj/settings.ini'' build_settings
                 ut_settings_no_root"
  let ?a = "map_of build_settings" and ?b = "map_of ut_settings_no_root"
  have m: "?a ''project_root'' = None \<or> ?b ''project_root'' = None"
    by (simp add: ut_settings_no_root_def)
  have l1: "load ?args False = Inr ?a" and l2: "load ?args True = Inr ?b"
    by (simp_all add: args_with_simps)
  have ag: "\<forall>k'\<in>set (map fst CMAKE_NEEDED_SETTINGS). agree_ok ?a ?b k'"
    by (simp add: setting_names agree_ok_def present_value_def build_settings_def
        ut_settings_no_root_def well_typed_def)
  have ex: "map (expected_stdout (\<lambda>xs. []) [(''/home/u/'', [])] ?a ?b) (map fst CMAKE_NEEDED_SETTINGS) =
      [''FPRIME_FRAMEWORK_PATH=fprime;'', [], [], [], []]"
    by (simp add: setting_names expected_stdout_def present_value_def build_settings_def
        ut_settings_no_root_def field_records_def record_of_def remap_def str_replace_def
        escape_concat)
  have es: "map (expected_stderr ?a ?b) (map fst CMAKE_NEEDED_SETTINGS) =
      [[], warning (KeyError ''project_root'') @ '';'',
       warning (KeyError ''library_locations'') @ '';'',
       warning (KeyError ''default_cmake_options'') @ '';'',
       warning (KeyError ''install_destination'') @ '';'']"
    by (simp add: setting_names expected_stderr_def present_value_def build_settings_def
        ut_settings_no_root_def)
  have tr: "remap [(''/home/u/'', [])] (escape ''proj/settings.ini'') = ''proj/settings.ini''"
    by (simp add: remap_def str_replace_def escape_concat)
  from missing_field_warns_and_continues
         [of ?a "''project_root''" ?b "\<lambda>xs. []" "[(''/home/u/'', [])]"
             "scalar_handler ''FPRIME_PROJECT_ROOT''" "\<lparr>stdout = [], stderr = []\<rparr>" "[]" "[]" ?args,
          OF m]
       l1 l2 ag
  have "snd (script ?args) = 0 \<and>
     stdout (fst (script ?args)) =
       ''FPRIME_FRAMEWORK_PATH=fprime;FPRIME_SETTINGS_FILE=proj/settings.ini'' \<and>
     stderr (fst (script ?args)) =
       warning (KeyError ''project_root'') @ '';'' @
       warning (KeyError ''library_locations'') @ '';'' @
       warning (KeyError ''default_cmake_options'') @ '';'' @
       warning (KeyError ''install_destination'') @ '';''"
    by (simp add: args_with_simps derive_example ex es tr del: map_map)
  with m l1 l2 show ?thesis by blast
qed

text \<open>
  Claim C7, as stated, fails: the settings path \<^verbatim>\<open>a;b/s.ini\<close> is printed as
  \<^verbatim>\<open>a\;b/s.ini\<close>, and the command-line text \<^verbatim>\<open>./settings.ini\<close> is printed as
  \<^verbatim>\<open>settings.ini\<close>: neither is the path as given.
\<close>

theorem settings_file_record_modified:
  "script (args_no_fields ''a;b/s.ini'' ''/w/a;b/s.ini'') =
     (\<lparr>stdout = ''FPRIME_SETTINGS_FILE=a'' @ [backslash] @ '';b/s.ini'', stderr = all_warnings\<rparr>, 0) \<and>
   \<not> suffix (''FPRIME_SETTINGS_FILE='' @ settings (args_no_fields ''a;b/s.ini'' ''/w/a;b/s.ini''))
       (stdout (fst (script (args_no_fields ''a;b/s.ini'' ''/w/a;b/s.ini'')))) \<and>
   script (parse_args ''./settings.ini'' ''/w/settings.ini'' (\<lambda>ut. Inr Map.empty) (\<lambda>xs. [])) =
     (\<lparr>stdout = ''FPRIME_SETTINGS_FILE=settings.ini'', stderr = all_warnings\<rparr>, 0)"
proof -
  have d: "derive_remapping ''a;b/s.ini'' ''/w/a;b/s.ini'' = [(''/w/'', [])]"
    by (simp add: derive_remapping_def slice_to_neg_def common_suffix_def)
  have r: "remap [(''/w/'', [])] (escape ''a;b/s.ini'') = ''a'' @ [backslash] @ '';b/s.ini''"
    by (simp add: remap_def str_replace_def escape_concat backslash_def)
  have s: "script (args_no_fields ''a;b/s.ini'' ''/w/a;b/s.ini'') =
     (\<lparr>stdout = ''FPRIME_SETTINGS_FILE=a'' @ [backslash] @ '';b/s.ini'', stderr = all_warnings\<rparr>, 0)"
    by (simp add: script_def main_no_fields d r)
  have g: "settings (args_no_fields ''a;b/s.ini'' ''/w/a;b/s.ini'') = ''a;b/s.ini''"
    by (simp add: args_no_fields_def)
  have n: "\<not> suffix (''FPRIME_SETTINGS_FILE='' @ ''a;b/s.ini'')
      (''FPRIME_SETTINGS_FILE=a'' @ [backslash] @ '';b/s.ini'')"
    by (simp add: suffix_to_prefix backslash_def)
  have pa: "parse_args ''./settings.ini'' ''/w/settings.ini'' (\<lambda>ut. Inr Map.empty) (\<lambda>xs. []) =
      args_no_fields ''settings.ini'' ''/w/settings.ini''"
    by (simp add: parse_args_def args_no_fields_def path_str_def path_root_def Let_def)
  have r2: "remap [(''/w/'', [])] (escape ''settings.ini'') = ''settings.ini''"
    by (simp add: remap_def str_replace_def escape_concat)
  have s2: "script (parse_args ''./settings.ini'' ''/w/settings.ini'' (\<lambda>ut. Inr Map.empty) (\<lambda>xs. [])) =
     (\<lparr>stdout = ''FPRIME_SETTINGS_FILE=settings.ini'', stderr = all_warnings\<rparr>, 0)"
    by (simp add: pa script_def main_no_fields derive_w r2)
  from n show ?thesis
    by (simp only: s s2 g fst_conv io.simps simp_thms)
qed

text \<open>
  Claim C7, amended. A run that reaches the end of the loop prints last the record
  \<^verbatim>\<open>FPRIME_SETTINGS_FILE\<close> without a delimiter, and exits with status 0; its value is the
  string of the path parsed from the command-line text, after the escaping and the
  remapping of every value. The value is the command-line text itself when that text is
  left as it is by the path conversion, holds no \<^verbatim>\<open>;\<close>, and the rule replaces a string by
  itself or its non-empty resolved prefix does not occur in the text.
\<close>

theorem trailing_settings_file_record:
  assumes "ld False = Inr a" and "ld True = Inr b"
    and "settings_loop ls (derive_remapping (path_str given) real) a b CMAKE_NEEDED_SETTINGS s =
           (Inr u, s')"
  shows "main (parse_args given real ld ls) s =
           (Inr 0, s'\<lparr>stdout := stdout s' @ ''FPRIME_SETTINGS_FILE='' @
              remap (derive_remapping (path_str given) real) (escape (path_str given))\<rparr>) \<and>
         (normal_path given \<longrightarrow> CHR '';'' \<notin> set given \<longrightarrow>
          derive_remapping (path_str given) real = [(key, val)] \<longrightarrow>
          (key = val \<or> key \<noteq> [] \<and> \<not> sublist key given) \<longrightarrow>
          main (parse_args given real ld ls) s =
            (Inr 0, s'\<lparr>stdout := stdout s' @ ''FPRIME_SETTINGS_FILE='' @ given\<rparr>))"
proof -
  have m: "main (parse_args given real ld ls) s =
           (Inr 0, s'\<lparr>stdout := stdout s' @ ''FPRIME_SETTINGS_FILE='' @
              remap (derive_remapping (path_str given) real) (escape (path_str given))\<rparr>)"
    using assms by (simp add: main_def parse_args_def print_setting_eq record_of_def)
  have "remap (derive_remapping (path_str given) real) (escape (path_str given)) = given"
    if np: "normal_path given" and ns: "CHR '';'' \<notin> set given"
      and d: "derive_remapping (path_str given) real = [(key, val)]"
      and kv: "key = val \<or> key \<noteq> [] \<and> \<not> sublist key given"
  proof -
    from np have p: "path_str given = given" by (rule path_str_normal)
    from kv have "str_replace key val given = given"
      using str_replace_same str_replace_absent by blast
    with ns d show ?thesis by (simp add: p escape_no_semicolon remap_def)
  qed
  with m show ?thesis by simp
qed

text \<open>
  The paths of the example, with no setting loaded.
\<close>

theorem trailing_settings_file_record_witness:
  "normal_path ''proj/settings.ini'' \<and>
   CHR '';'' \<notin> set ''proj/settings.ini'' \<and>
   derive_remapping (path_str ''proj/settings.ini'') ''/home/u/proj/settings.ini'' =
     [(''/home/u/'', [])] \<and>
   \<not> sublist ''/home/u/'' ''proj/settings.ini'' \<and>
   main (parse_args ''proj/settings.ini'' ''/home/u/proj/settings.ini'' (\<lambda>ut. Inr Map.empty) (\<lambda>xs. []))
       \<lparr>stdout = [], stderr = []\<rparr> =
     (Inr 0, \<lparr>stdout = ''FPRIME_SETTINGS_FILE=proj/settings.ini'', stderr = all_warnings\<rparr>)"
proof -
  have np: "normal_path ''proj/settings.ini''"
    by (simp add: normal_path_def path_root_def Let_def)
  have p: "path_str ''proj/settings.ini'' = ''proj/settings.ini''"
    using np by (rule path_str_normal)
  have ns: "CHR '';'' \<notin> set ''proj/settings.ini''" by simp
  have d: "derive_remapping (path_str ''proj/settings.ini'') ''/home/u/proj/settings.ini'' =
     [(''/home/u/'', [])]"
    by (simp only: p derive_example)
  have lp: "settings_loop (\<lambda>xs. []) (derive_remapping (path_str ''proj/settings.ini'')
        ''/home/u/proj/settings.ini'')
      Map.empty Map.empty CMAKE_NEEDED_SETTINGS \<lparr>stdout = [], stderr = []\<rparr> =
      (Inr (), \<lparr>stdout = [], stderr = all_warnings\<rparr>)"
    by (simp add: settings_loop_no_fields all_warnings_def)
  have n: "\<not> sublist ''/home/u/'' ''proj/settings.ini''"
    by (simp add: sublist_Cons_right)
  have kv: "''/home/u/'' = [] \<or> ''/home/u/'' \<noteq> [] \<and> \<not> sublist ''/home/u/'' ''proj/settings.ini''"
    using n by simp
  note T = trailing_settings_file_record
             [where ld = "\<lambda>ut. Inr Map.empty" and a = Map.empty and b = Map.empty
                and ls = "\<lambda>xs. []" and given = "''proj/settings.ini''"
                and real = "''/home/u/proj/settings.ini''" and s = "\<lparr>stdout = [], stderr = []\<rparr>"
                and s' = "\<lparr>stdout = [], stderr = all_warnings\<rparr>" and u = "()"
                and key = "''/home/u/''" and val = "[]", OF refl refl lp]
  from T[THEN conjunct2, rule_format, OF np ns d kv]
  have "main (parse_args ''proj/settings.ini'' ''/home/u/proj/settings.ini''
          (\<lambda>ut. Inr Map.empty) (\<lambda>xs. [])) \<lparr>stdout = [], stderr = []\<rparr> =
     (Inr 0, \<lparr>stdout = ''FPRIME_SETTINGS_FILE=proj/settings.ini'', stderr = all_warnings\<rparr>)"
    by simp
  with np ns d n show ?thesis by (intro conjI)
qed

end
